theory Spec2Isabelle
  imports Main
begin

section \<open>Exceptions and observable effects\<close>

text \<open>
  The exceptions of the Python program, as far as the handlers of \<^verbatim>\<open>main\<close> tell them
  apart. \<^verbatim>\<open>KeyboardInterrupt\<close> and \<^verbatim>\<open>SystemExit\<close> derive from \<^verbatim>\<open>BaseException\<close> only;
  \<open>Exception cls msg\<close> is an instance of a subclass \<open>cls\<close> of \<^verbatim>\<open>Exception\<close> whose
  \<^verbatim>\<open>str()\<close> is \<open>msg\<close>.
\<close>

datatype exn =
    KeyboardInterrupt
  | SystemExit int
  | Exception string string

text \<open>
  What a run does to the outside: text written to standard error, the usage line that
  argparse's own \<^verbatim>\<open>error\<close> prints, and the post-mortem debugger started on the
  traceback of an exception.
\<close>

datatype event =
    Stderr string
  | PrintUsage
  | PostMortem exn

text \<open>
  A computation returns the effects it had, in order, and either the exception it raised
  or its value.
\<close>

type_synonym ('e, 'a) io = "'e list \<times> (exn + 'a)"

definition io_return :: "'a \<Rightarrow> ('e, 'a) io" where
  "io_return x = ([], Inr x)"

definition io_raise :: "exn \<Rightarrow> ('e, 'a) io" where
  "io_raise e = ([], Inl e)"

definition io_bind :: "('e, 'a) io \<Rightarrow> ('a \<Rightarrow> ('e, 'b) io) \<Rightarrow> ('e, 'b) io" where
  "io_bind m f =
     (case m of
        (es, Inl e) \<Rightarrow> (es, Inl e)
      | (es, Inr x) \<Rightarrow> (case f x of (es', r) \<Rightarrow> (es @ es', r)))"

text \<open>
  How the process ends when \<^verbatim>\<open>main\<close> is its entry point: \<^verbatim>\<open>SystemExit(n)\<close> is exit
  status \<open>n\<close>, a normal return is status 0, any other exception ends the process
  abnormally with a traceback.
\<close>

datatype ending = Exited int | Traceback exn

fun process_end :: "exn + 'a \<Rightarrow> ending" where
  "process_end (Inr _) = Exited 0"
| "process_end (Inl (SystemExit n)) = Exited n"
| "process_end (Inl e) = Traceback e"

text \<open>The two streams whose terminal status the program could consult.\<close>

record sys =
  stdout_isatty :: bool
  stderr_isatty :: bool


section \<open>Coloured text\<close>

text \<open>
  The colorclass library is not part of the repository. Its \<^verbatim>\<open>Color(text)\<close> replaces
  each tag \<^verbatim>\<open>{name}\<close> it knows by an ANSI escape sequence (\<^verbatim>\<open>value_colors\<close>) or by
  nothing (\<^verbatim>\<open>value_no_colors\<close>). The table holds the tags this program uses, with
  the codes of colorclass's default (dark) background.
\<close>

definition ESC :: char where
  "ESC = CHR 0x1B"

definition newline :: string where
  "newline = [CHR 0x0A]"

definition codes :: "(string \<times> string) list" where
  "codes =
     [(''autored'', ''91''), (''/autored'', ''39''),
      (''automagenta'', ''95''), (''/automagenta'', ''39''),
      (''autoyellow'', ''93''), (''/autoyellow'', ''39'')]"

definition ansi :: "string \<Rightarrow> string" where
  "ansi code = ESC # CHR ''['' # code @ ''m''"

function render :: "bool \<Rightarrow> string \<Rightarrow> string" where
  "render colors [] = []"
| "render colors (c # cs) =
     (let tag = takeWhile (\<lambda>x. x \<noteq> CHR ''}'') cs;
          rest = dropWhile (\<lambda>x. x \<noteq> CHR ''}'') cs
      in if c = CHR ''{'' \<and> rest \<noteq> [] \<and> map_of codes tag \<noteq> None
         then (if colors then ansi (the (map_of codes tag)) else []) @ render colors (tl rest)
         else c # render colors cs)"
  by pat_completeness auto
termination
proof (relation "measure (\<lambda>(colors, s). length s)", goal_cases)
  case 1
  show ?case by simp
next
  case (2 colors c cs tag rest)
  have "length (tl rest) \<le> length rest"
    by simp
  also have "\<dots> \<le> length cs"
    unfolding 2(2) by (rule length_dropWhile_le)
  finally show ?case
    by simp
next
  case (3 colors c cs tag rest)
  show ?case by simp
qed

record Color =
  value_colors :: string
  value_no_colors :: string

definition Color :: "string \<Rightarrow> Color" where
  "Color text = \<lparr>value_colors = render True text, value_no_colors = render False text\<rparr>"

text \<open>
  \<^verbatim>\<open>colorized\<close>. A \<^verbatim>\<open>Color\<close> instance is a string whose characters are its
  \<^verbatim>\<open>value_colors\<close>, which is what a later concatenation and write see.
\<close>

definition colorized :: "sys \<Rightarrow> string \<Rightarrow> string" where
  "colorized s text =
     (if stdout_isatty s then value_colors (Color text)
      else value_no_colors (Color text))"


section \<open>Command names\<close>

text \<open>
  Python's \<^verbatim>\<open>str.lower\<close> on one character. Class identifiers are taken to be ASCII, so
  only \<^verbatim>\<open>A\<close> to \<^verbatim>\<open>Z\<close> change.
\<close>

definition lower_char :: "char \<Rightarrow> char" where
  "lower_char c =
     (case map_of (zip ''ABCDEFGHIJKLMNOPQRSTUVWXYZ'' ''abcdefghijklmnopqrstuvwxyz'') c of
        Some l \<Rightarrow> l
      | None \<Rightarrow> c)"

definition lower :: "string \<Rightarrow> string" where
  "lower s = map lower_char s"

text \<open>\<^verbatim>\<open>s.replace(old, new)\<close> for one-character \<^verbatim>\<open>old\<close> and \<^verbatim>\<open>new\<close>: every occurrence.\<close>

definition replace :: "char \<Rightarrow> char \<Rightarrow> string \<Rightarrow> string" where
  "replace old new s = map (\<lambda>c. if c = old then new else c) s"

definition startswith :: "string \<Rightarrow> string \<Rightarrow> bool" where
  "startswith s pre = (take (length pre) s = pre)"

text \<open>
  \<^verbatim>\<open>Command.name\<close>, a class method: its only input is \<^verbatim>\<open>cls.__name__\<close>.
  The slice \<^verbatim>\<open>name[4:]\<close> is \<open>drop 4\<close>.
\<close>

definition Command_name :: "string \<Rightarrow> string" where
  "Command_name cls_name =
     (let name = lower (replace (CHR ''_'') (CHR ''-'') cls_name)
      in if startswith name ''cmd-'' then drop 4 name else name)"


section \<open>Values, options and parser nodes\<close>

text \<open>
  Modelled from the spec: the enumeration \<^verbatim>\<open>tabular.RenderTarget\<close>, whose module is not
  among the sources. The spec names its members as pretty, plain, and one or more
  structured dump formats; \<open>'d\<close> is the type of those dump formats.
\<close>

datatype 'd RenderTarget = pretty | plain | dump 'd

text \<open>
  A command instance, as stored under \<^verbatim>\<open>execute\<close>: the shell command of this module, or
  one that a command-group module registered.
\<close>

datatype command = cmd_shell | module_command string

datatype 'd pyvalue =
    VNone
  | VStr string
  | VBool bool
  | VTarget "'d RenderTarget"
  | VCommand command

text \<open>Python truthiness, as \<^verbatim>\<open>options.debug\<close> is tested.\<close>

fun truthy :: "'d pyvalue \<Rightarrow> bool" where
  "truthy VNone = False"
| "truthy (VStr s) = (s \<noteq> [])"
| "truthy (VBool b) = b"
| "truthy (VTarget t) = True"
| "truthy (VCommand c) = True"

text \<open>
  An \<^verbatim>\<open>argparse.Namespace\<close>: attribute names with their values. Reading an attribute
  that is not there raises \<^verbatim>\<open>AttributeError\<close>.
\<close>

type_synonym 'd namespace = "(string \<times> 'd pyvalue) list"

definition getattr :: "'d namespace \<Rightarrow> string \<Rightarrow> exn + 'd pyvalue" where
  "getattr ns a =
     (case map_of ns a of
        None \<Rightarrow> Inl (Exception ''AttributeError'' (''Namespace object has no attribute '' @ a))
      | Some v \<Rightarrow> Inr v)"

text \<open>Assignment \<^verbatim>\<open>d[k] = v\<close> on a dict, which keeps insertion order.\<close>

fun dict_set :: "'k \<Rightarrow> 'v \<Rightarrow> ('k \<times> 'v) list \<Rightarrow> ('k \<times> 'v) list" where
  "dict_set k v [] = [(k, v)]"
| "dict_set k v (x # xs) = (if fst x = k then (k, v) # xs else x # dict_set k v xs)"

text \<open>
  The keyword arguments of \<^verbatim>\<open>add_argument\<close> that the program uses. The program declares
  long options only and never passes \<^verbatim>\<open>dest\<close>, so argparse derives the attribute name
  from the option string.
\<close>

datatype arg_action = store | store_true

datatype arg_type = type_str | type_RenderTarget

datatype arg_choices = no_choices | choices_list "string list" | choices_RenderTarget

datatype arg_help = no_help | help_text string | SUPPRESS

record 'd argument =
  option_string :: string
  action :: arg_action
  conv :: arg_type
  choices :: arg_choices
  required :: bool
  default_value :: "'d pyvalue"
  metavar :: "string option"
  arg_help :: arg_help

definition dest :: "'d argument \<Rightarrow> string" where
  "dest a = replace (CHR ''-'') (CHR ''_'') (dropWhile (\<lambda>c. c = CHR ''-'') (option_string a))"

text \<open>
  A parser node and its subcommand registry (argparse's \<^verbatim>\<open>_SubParsersAction\<close>).
  \<open>base_subparsers\<close> is argparse's own \<^verbatim>\<open>_subparsers is not None\<close>;
  \<open>subparsers_attr\<close> is the private attribute \<^verbatim>\<open>__subparsers\<close> of the subclass, \<open>None\<close>
  while the attribute does not exist. \<open>created\<close> is not a field of the program: it
  counts the registries ever created for the node. The \<^verbatim>\<open>-h\<close> option that argparse adds
  to every parser is left out.
\<close>

datatype 'd parser = Parser
    (prog: string)
    (description: "string option")
    (epilog: "string option")
    (actions: "'d argument list")
    (defaults: "(string \<times> 'd pyvalue) list")
    (base_subparsers: bool)
    (subparsers_attr: "'d registry option")
    (created: nat)
  and 'd registry = Registry
    (title: string)
    (reg_metavar: "string option")
    (prog_prefix: string)
    (choices_help: "(string \<times> string) list")
    (name_parser_map: "(string \<times> 'd parser) list")

definition set_actions :: "'d argument list \<Rightarrow> 'd parser \<Rightarrow> 'd parser" where
  "set_actions as p =
     Parser (prog p) (description p) (epilog p) as (defaults p)
       (base_subparsers p) (subparsers_attr p) (created p)"

definition set_defaults_dict :: "(string \<times> 'd pyvalue) list \<Rightarrow> 'd parser \<Rightarrow> 'd parser" where
  "set_defaults_dict ds p =
     Parser (prog p) (description p) (epilog p) (actions p) ds
       (base_subparsers p) (subparsers_attr p) (created p)"

definition set_subparsers_attr :: "'d registry option \<Rightarrow> 'd parser \<Rightarrow> 'd parser" where
  "set_subparsers_attr r p =
     Parser (prog p) (description p) (epilog p) (actions p) (defaults p)
       (base_subparsers p) r (created p)"

definition set_metavar :: "string option \<Rightarrow> 'd registry \<Rightarrow> 'd registry" where
  "set_metavar m r =
     Registry (title r) m (prog_prefix r) (choices_help r) (name_parser_map r)"

text \<open>The constructor, with the keyword arguments the program passes.\<close>

definition ArgumentParser :: "string \<Rightarrow> string option \<Rightarrow> string option \<Rightarrow> 'd parser" where
  "ArgumentParser prog' description' epilog' =
     Parser prog' description' epilog' [] [] False None 0"


section \<open>The argparse operations the program calls\<close>

text \<open>
  argparse is the standard library's; these definitions follow its documented
  behaviour. \<^verbatim>\<open>exit\<close> writes the message, if any, to standard error and raises
  \<^verbatim>\<open>SystemExit\<close>. \<open>argparse_error\<close> is the \<^verbatim>\<open>error\<close> method that the subclass
  overrides: it prints the usage line first.
\<close>

definition argparse_exit :: "int \<Rightarrow> string \<Rightarrow> (event, 'a) io" where
  "argparse_exit status message =
     ((if message \<noteq> [] then [Stderr message] else []), Inl (SystemExit status))"

definition argparse_error :: "string \<Rightarrow> string \<Rightarrow> (event, 'a) io" where
  "argparse_error prog' message =
     io_bind ([PrintUsage], Inr ())
       (\<lambda>_. argparse_exit 2 (prog' @ '': error: '' @ message @ newline))"

text \<open>\<^verbatim>\<open>ArgumentParser.error\<close>, the override.\<close>

definition ArgumentParser_error :: "sys \<Rightarrow> string \<Rightarrow> (event, 'a) io" where
  "ArgumentParser_error s message =
     argparse_exit 2 (colorized s ''{autored}Error:{/autored} '' @ message @ newline)"

text \<open>
  \<^verbatim>\<open>add_argument\<close>: an option string already declared on the parser is a conflict. With
  no \<^verbatim>\<open>default\<close> passed, a parser-level default for the same attribute is taken.
\<close>

definition add_argument :: "'d argument \<Rightarrow> 'd parser \<Rightarrow> (event, 'd parser) io" where
  "add_argument a p =
     (if option_string a \<in> set (map option_string (actions p))
      then io_raise (Exception ''ArgumentError''
             (''argument '' @ option_string a @ '': conflicting option string: ''
                @ option_string a))
      else
        let d = (case (default_value a, map_of (defaults p) (dest a)) of
                   (VNone, Some v) \<Rightarrow> v
                 | _ \<Rightarrow> default_value a)
        in io_return (set_actions (actions p @ [a\<lparr>default_value := d\<rparr>]) p))"

text \<open>
  \<^verbatim>\<open>set_defaults(k=v)\<close>: records the parser-level default and replaces the default of
  every declared argument with that attribute name.
\<close>

definition set_defaults :: "string \<Rightarrow> 'd pyvalue \<Rightarrow> 'd parser \<Rightarrow> 'd parser" where
  "set_defaults k v p =
     set_actions (map (\<lambda>a. if dest a = k then a\<lparr>default_value := v\<rparr> else a) (actions p))
       (set_defaults_dict (dict_set k v (defaults p)) p)"

text \<open>
  argparse's own \<^verbatim>\<open>add_subparsers\<close>, reached through \<^verbatim>\<open>super\<close>: a second call on
  the same parser is reported through \<^verbatim>\<open>self.error\<close>, which is the override.
\<close>

definition argparse_add_subparsers ::
    "sys \<Rightarrow> string \<Rightarrow> 'd parser \<Rightarrow> (event, 'd registry \<times> 'd parser) io" where
  "argparse_add_subparsers s title' p =
     (if base_subparsers p
      then ArgumentParser_error s ''cannot have multiple subparser arguments''
      else io_return
             (Registry title' None (prog p) [] [],
              Parser (prog p) (description p) (epilog p) (actions p) (defaults p)
                True (subparsers_attr p) (Suc (created p))))"


section \<open>The extended argument parser\<close>

text \<open>\<^verbatim>\<open>ArgumentParser.add_subparsers\<close>, the disabled one-shot method.\<close>

definition ArgumentParser_add_subparsers ::
    "'d parser \<Rightarrow> (event, 'd registry \<times> 'd parser) io" where
  "ArgumentParser_add_subparsers p =
     io_raise (Exception ''NotImplementedError'' ''add_subparsers has been disabled'')"

text \<open>
  The property \<^verbatim>\<open>ArgumentParser.subparsers\<close>. The \<^verbatim>\<open>try\<close> succeeds when the attribute
  exists; otherwise the registry is created, configured and stored. The node is
  returned with the registry because the access may have changed it.
\<close>

definition subparsers :: "sys \<Rightarrow> 'd parser \<Rightarrow> (event, 'd registry \<times> 'd parser) io" where
  "subparsers s p =
     (case subparsers_attr p of
        Some r \<Rightarrow> io_return (r, p)
      | None \<Rightarrow>
          io_bind (argparse_add_subparsers s ''sub-commands'' p) (\<lambda>(r, p').
            let r' = set_metavar (Some ''COMMAND'') r
            in io_return (r', set_subparsers_attr (Some r') p')))"

text \<open>
  The state of a node's registry as the program can make it: either nothing exists yet,
  or one registry was created, configured and stored.
\<close>

definition registry_consistent :: "'d parser \<Rightarrow> bool" where
  "registry_consistent p =
     (case subparsers_attr p of
        None \<Rightarrow> \<not> base_subparsers p \<and> created p = 0
      | Some r \<Rightarrow>
          base_subparsers p \<and> created p = 1 \<and> title r = ''sub-commands''
          \<and> reg_metavar r = Some ''COMMAND'')"

text \<open>\<open>n\<close> accesses in a row, collecting what each returns.\<close>

fun subparsers_times ::
    "sys \<Rightarrow> nat \<Rightarrow> 'd parser \<Rightarrow> (event, 'd registry list \<times> 'd parser) io" where
  "subparsers_times s 0 p = io_return ([], p)"
| "subparsers_times s (Suc n) p =
     io_bind (subparsers s p) (\<lambda>(r, p').
       io_bind (subparsers_times s n p') (\<lambda>(rs, p''). io_return (r # rs, p'')))"

text \<open>
  \<^verbatim>\<open>parser.subparsers.add_parser(name, help=..., ...)\<close>. In Python the new child is
  entered in the registry at once and the caller then changes it in place; here
  \<open>populate\<close> is what the caller does to the child, and the child is entered when
  that is done. Assigning a name that is already there replaces its parser.
\<close>

definition new_child ::
    "'d registry \<Rightarrow> string \<Rightarrow> string option \<Rightarrow> string option \<Rightarrow> 'd parser" where
  "new_child r name description' epilog' =
     ArgumentParser (prog_prefix r @ '' '' @ name) description' epilog'"

definition registry_insert ::
    "string \<Rightarrow> string \<Rightarrow> 'd parser \<Rightarrow> 'd registry \<Rightarrow> 'd registry" where
  "registry_insert name help child r =
     Registry (title r) (reg_metavar r) (prog_prefix r)
       (choices_help r @ [(name, help)]) (dict_set name child (name_parser_map r))"

definition add_parser ::
    "sys \<Rightarrow> string \<Rightarrow> string \<Rightarrow> string option \<Rightarrow> string option \<Rightarrow>
     ('d parser \<Rightarrow> (event, 'd parser) io) \<Rightarrow> 'd parser \<Rightarrow> (event, 'd parser) io" where
  "add_parser s name help description' epilog' populate parser =
     io_bind (subparsers s parser) (\<lambda>(r, parser').
       io_bind (populate (new_child r name description' epilog')) (\<lambda>child.
         io_return (set_subparsers_attr (Some (registry_insert name help child r)) parser')))"


section \<open>Commands\<close>

text \<open>
  The profile storage is not among the sources: the sorted name list and the default
  profile that the module computes when it is imported, \<^verbatim>\<open>PROFILE_NAMES\<close> and
  \<^verbatim>\<open>PROFILE_DEFAULT\<close>, are parameters. Of a profile only the name is read.
\<close>

record Profile =
  name :: string

text \<open>
  \<^verbatim>\<open>Command.register\<close>. \<open>cls\<close> is the instance that \<^verbatim>\<open>cls(command_parser)\<close> makes,
  \<open>cls_name\<close> is \<^verbatim>\<open>cls.__name__\<close>, \<open>doc\<close> is what \<^verbatim>\<open>utils.parse_docstring(cls)\<close>
  returns and \<open>init\<close> is the constructor of the class acting on the new parser.
\<close>

definition Command_register ::
    "sys \<Rightarrow> command \<Rightarrow> string \<Rightarrow> string \<times> string \<Rightarrow>
     ('d parser \<Rightarrow> (event, 'd parser) io) \<Rightarrow> string option \<Rightarrow>
     'd parser \<Rightarrow> (event, 'd parser) io" where
  "Command_register s cls cls_name doc init name' parser =
     (case doc of (help_title, help_body) \<Rightarrow>
        add_parser s (case name' of None \<Rightarrow> Command_name cls_name | Some n \<Rightarrow> n)
          help_title (Some help_title) (Some help_body)
          (\<lambda>command_parser.
             io_bind (init command_parser) (\<lambda>command_parser.
               io_return (set_defaults ''execute'' (VCommand cls) command_parser)))
          parser)"

text \<open>\<^verbatim>\<open>TableCommand.__init__\<close>.\<close>

definition TableCommand_init :: "sys \<Rightarrow> 'd parser \<Rightarrow> (event, 'd parser) io" where
  "TableCommand_init s parser =
     (let default_target = (if stdout_isatty s then pretty else plain)
      in add_argument
           \<lparr>option_string = ''--output-format'', action = store,
            conv = type_RenderTarget, choices = choices_RenderTarget, required = False,
            default_value = VTarget default_target, metavar = None,
            arg_help = help_text
              (''Output tabular data as a formatted table (pretty), a ''
               @ ''formatted table using only ASCII for borders (plain), or ''
               @ ''one of several dump formats. Default: %(default)s.'')\<rparr>
           parser)"

definition profile_name_help :: "Profile option \<Rightarrow> arg_help" where
  "profile_name_help PROFILE_DEFAULT =
     help_text
       (''The name of the remote MAAS instance to use. Use ''
        @ ''`list-profiles` to obtain a list of valid profiles.''
        @ (if PROFILE_DEFAULT = None then [] else '' [default: %(default)s]''))"

text \<open>\<^verbatim>\<open>OriginCommandBase.__init__\<close>, after the constructor of the next class has run.\<close>

definition OriginCommandBase_init ::
    "string list \<Rightarrow> Profile option \<Rightarrow> 'd parser \<Rightarrow> (event, 'd parser) io" where
  "OriginCommandBase_init PROFILE_NAMES PROFILE_DEFAULT parser =
     io_bind
       (add_argument
          \<lparr>option_string = ''--profile-name'', action = store, conv = type_str,
           choices = choices_list PROFILE_NAMES, required = (PROFILE_DEFAULT = None),
           default_value = VNone, metavar = Some ''NAME'',
           arg_help = profile_name_help PROFILE_DEFAULT\<rparr>
          parser)
       (\<lambda>parser.
          io_return
            (case PROFILE_DEFAULT of
               None \<Rightarrow> parser
             | Some d \<Rightarrow> set_defaults ''profile_name'' (VStr (name d)) parser))"

text \<open>
  \<^verbatim>\<open>OriginTableCommand\<close> inherits from \<^verbatim>\<open>OriginCommandBase\<close> and \<^verbatim>\<open>TableCommand\<close> in
  this order, so the \<^verbatim>\<open>super\<close> call of the first runs the constructor of the second.
\<close>

definition OriginTableCommand_init ::
    "sys \<Rightarrow> string list \<Rightarrow> Profile option \<Rightarrow> 'd parser \<Rightarrow> (event, 'd parser) io" where
  "OriginTableCommand_init s PROFILE_NAMES PROFILE_DEFAULT parser =
     io_bind (TableCommand_init s parser) (OriginCommandBase_init PROFILE_NAMES PROFILE_DEFAULT)"

text \<open>\<^verbatim>\<open>cmd_shell.__init__\<close>.\<close>

definition cmd_shell_init ::
    "string list \<Rightarrow> Profile option \<Rightarrow> 'd parser \<Rightarrow> (event, 'd parser) io" where
  "cmd_shell_init PROFILE_NAMES PROFILE_DEFAULT parser =
     io_bind
       (add_argument
          \<lparr>option_string = ''--profile-name'', action = store, conv = type_str,
           choices = choices_list PROFILE_NAMES, required = False,
           default_value = VNone, metavar = Some ''NAME'',
           arg_help = profile_name_help PROFILE_DEFAULT\<rparr>
          parser)
       (\<lambda>parser.
          io_return
            (case PROFILE_DEFAULT of
               None \<Rightarrow> set_defaults ''profile_name'' VNone parser
             | Some d \<Rightarrow> set_defaults ''profile_name'' (VStr (name d)) parser))"

text \<open>
  The calls of the profile-bound commands. The session and origin constructors and the
  narrower \<^verbatim>\<open>execute\<close> of the subclass are parameters that may raise; every call made
  to one of them is recorded with its arguments.
\<close>

datatype ('s, 'o, 'd) call =
    call_fromProfileName "'d pyvalue"
  | call_Origin 's
  | call_execute 'o "'d namespace" "'d pyvalue option"

definition OriginCommand_call ::
    "('d pyvalue \<Rightarrow> exn + 's) \<Rightarrow> ('s \<Rightarrow> exn + 'o) \<Rightarrow>
     ('o \<Rightarrow> 'd namespace \<Rightarrow> 'd pyvalue option \<Rightarrow> exn + 'r) \<Rightarrow>
     'd namespace \<Rightarrow> (('s, 'o, 'd) call, 'r) io" where
  "OriginCommand_call fromProfileName Origin execute options =
     io_bind ([], getattr options ''profile_name'') (\<lambda>profile_name.
     io_bind ([call_fromProfileName profile_name], fromProfileName profile_name) (\<lambda>session.
     io_bind ([call_Origin session], Origin session) (\<lambda>origin.
       ([call_execute origin options None], execute origin options None))))"

definition OriginTableCommand_call ::
    "('d pyvalue \<Rightarrow> exn + 's) \<Rightarrow> ('s \<Rightarrow> exn + 'o) \<Rightarrow>
     ('o \<Rightarrow> 'd namespace \<Rightarrow> 'd pyvalue option \<Rightarrow> exn + 'r) \<Rightarrow>
     'd namespace \<Rightarrow> (('s, 'o, 'd) call, 'r) io" where
  "OriginTableCommand_call fromProfileName Origin execute options =
     io_bind ([], getattr options ''profile_name'') (\<lambda>profile_name.
     io_bind ([call_fromProfileName profile_name], fromProfileName profile_name) (\<lambda>session.
     io_bind ([call_Origin session], Origin session) (\<lambda>origin.
     io_bind ([], getattr options ''output_format'') (\<lambda>target.
       ([call_execute origin options (Some target)],
        execute origin options (Some target))))))"


section \<open>Parsing one option\<close>

text \<open>
  What argparse does with one declared option: \<open>given\<close> is the argument string that
  follows the option on the command line, \<open>None\<close> when the option is left out.
  \<open>lookup\<close> is the call \<^verbatim>\<open>RenderTarget(s)\<close>, the member whose value is \<open>s\<close> if there
  is one. A string is converted first and then checked against the choices; a missing
  required option is an error; otherwise the default stands. A default is taken as it
  is. For \<^verbatim>\<open>store_true\<close> the option has no argument and its presence gives \<^verbatim>\<open>True\<close>.
\<close>

datatype parse_error =
    required_missing string
  | invalid_choice string string
  | invalid_value string string
  | unrecognized string

fun convert :: "(string \<Rightarrow> 'd RenderTarget option) \<Rightarrow> arg_type \<Rightarrow> string \<Rightarrow> 'd pyvalue option" where
  "convert lookup type_str s = Some (VStr s)"
| "convert lookup type_RenderTarget s = map_option VTarget (lookup s)"

fun in_choices :: "arg_choices \<Rightarrow> 'd pyvalue \<Rightarrow> bool" where
  "in_choices no_choices v = True"
| "in_choices (choices_list cs) (VStr s) = (s \<in> set cs)"
| "in_choices (choices_list cs) v = False"
| "in_choices choices_RenderTarget (VTarget t) = True"
| "in_choices choices_RenderTarget v = False"

definition parse_option ::
    "(string \<Rightarrow> 'd RenderTarget option) \<Rightarrow> 'd argument \<Rightarrow> string option \<Rightarrow>
     parse_error + 'd pyvalue" where
  "parse_option lookup a given =
     (case given of
        None \<Rightarrow>
          if required a then Inl (required_missing (option_string a))
          else Inr (default_value a)
      | Some s \<Rightarrow>
          (case action a of
             store_true \<Rightarrow> Inr (VBool True)
           | store \<Rightarrow>
               (case convert lookup (conv a) s of
                  None \<Rightarrow> Inl (invalid_value (option_string a) s)
                | Some v \<Rightarrow>
                    if in_choices (choices a) v then Inr v
                    else Inl (invalid_choice (option_string a) s))))"

text \<open>
  The same on a parser: every error goes to \<^verbatim>\<open>self.error\<close> with argparse's wording of
  it, \<open>wording\<close>.
\<close>

definition parse_flag ::
    "sys \<Rightarrow> (parse_error \<Rightarrow> string) \<Rightarrow> (string \<Rightarrow> 'd RenderTarget option) \<Rightarrow>
     'd parser \<Rightarrow> string \<Rightarrow> string option \<Rightarrow> (event, 'd pyvalue) io" where
  "parse_flag s wording lookup p flag given =
     (case find (\<lambda>a. option_string a = flag) (actions p) of
        None \<Rightarrow> ArgumentParser_error s (wording (unrecognized flag))
      | Some a \<Rightarrow>
          (case parse_option lookup a given of
             Inl err \<Rightarrow> ArgumentParser_error s (wording err)
           | Inr v \<Rightarrow> io_return v))"


section \<open>Building the parser tree\<close>

fun register_submodules ::
    "(string \<Rightarrow> 'd parser \<Rightarrow> (event, 'd parser) io) \<Rightarrow> string list \<Rightarrow>
     'd parser \<Rightarrow> (event, 'd parser) io" where
  "register_submodules reg [] parser = io_return parser"
| "register_submodules reg (submodule # submodules) parser =
     io_bind (reg submodule parser) (register_submodules reg submodules)"

definition debug_argument :: "'d argument" where
  "debug_argument =
     \<lparr>option_string = ''--debug'', action = store_true, conv = type_str,
      choices = no_choices, required = False, default_value = VBool False,
      metavar = None, arg_help = SUPPRESS\<rparr>"

text \<open>
  \<^verbatim>\<open>prepare_parser\<close>. \<open>shell_doc\<close> is the parsed docstring of \<^verbatim>\<open>cmd_shell\<close>;
  \<open>reg submodule\<close> is \<^verbatim>\<open>import_module\<close> of that submodule followed by its
  \<^verbatim>\<open>register\<close>, both outside the sources. \<^verbatim>\<open>argv[0]\<close> raises on an empty list.
\<close>

definition prepare_parser ::
    "sys \<Rightarrow> string list \<Rightarrow> Profile option \<Rightarrow> string \<times> string \<Rightarrow>
     (string \<Rightarrow> 'd parser \<Rightarrow> (event, 'd parser) io) \<Rightarrow> string list \<Rightarrow>
     (event, 'd parser) io" where
  "prepare_parser s PROFILE_NAMES PROFILE_DEFAULT shell_doc reg argv =
     (case argv of
        [] \<Rightarrow> io_raise (Exception ''IndexError'' ''list index out of range'')
      | argv0 # _ \<Rightarrow>
          io_bind (Command_register s cmd_shell ''cmd_shell'' shell_doc
                     (cmd_shell_init PROFILE_NAMES PROFILE_DEFAULT) None
                     (ArgumentParser argv0 (Some ''Interact with a remote MAAS server.'')
                        (Some ''http://maas.ubuntu.com/''))) (\<lambda>parser.
          io_bind (add_parser s ''acquire'' ''Acquire nodes or other resources.''
                     None None io_return parser) (\<lambda>parser.
          io_bind (add_parser s ''launch'' ''Launch nodes or other resources.''
                     None None io_return parser) (\<lambda>parser.
          io_bind (add_parser s ''release'' ''Release nodes or other resources.''
                     None None io_return parser) (\<lambda>parser.
          io_bind (add_parser s ''list'' ''List nodes, files, tags, and other resources.''
                     None None io_return parser) (\<lambda>parser.
          io_bind (register_submodules reg
                     [''profiles'', ''files'', ''nodes'', ''tags'', ''users''] parser) (\<lambda>parser.
          add_argument debug_argument parser)))))))"


section \<open>The dispatch loop\<close>

text \<open>
  What \<^verbatim>\<open>parser.parse_args\<close> does with the command line is a parameter: it returns a
  namespace, or calls \<^verbatim>\<open>self.error\<close> with a message, or lets another exception out (the
  \<^verbatim>\<open>SystemExit(0)\<close> of \<^verbatim>\<open>--help\<close>, an interrupt, a failure of its own).
\<close>

datatype 'd parsed = Parsed "'d namespace" | ParseError string | ParseRaised exn

definition parse_args :: "sys \<Rightarrow> 'd parsed \<Rightarrow> (event, 'd namespace) io" where
  "parse_args s parsed =
     (case parsed of
        Parsed options \<Rightarrow> io_return options
      | ParseError message \<Rightarrow> ArgumentParser_error s message
      | ParseRaised e \<Rightarrow> io_raise e)"

text \<open>\<^verbatim>\<open>post_mortem\<close>: whichever debugger is there is started on the traceback.\<close>

definition post_mortem :: "exn \<Rightarrow> (event, unit) io" where
  "post_mortem traceback = ([PostMortem traceback], Inr ())"

text \<open>
  The inner \<^verbatim>\<open>try\<close> of \<^verbatim>\<open>main\<close> with its \<^verbatim>\<open>else\<close>: only the attribute access is
  guarded. \<open>run c\<close> is the \<^verbatim>\<open>__call__\<close> of the command instance \<open>c\<close>.
\<close>

definition execute_options ::
    "sys \<Rightarrow> (command \<Rightarrow> 'd namespace \<Rightarrow> (event, unit) io) \<Rightarrow> 'd namespace \<Rightarrow>
     (event, unit) io" where
  "execute_options s run options =
     (case getattr options ''execute'' of
        Inl _ \<Rightarrow> ArgumentParser_error s ''No arguments given.''
      | Inr execute \<Rightarrow>
          (case execute of
             VCommand c \<Rightarrow> run c options
           | _ \<Rightarrow> io_raise (Exception ''TypeError'' ''object is not callable'')))"

text \<open>
  The two \<^verbatim>\<open>except\<close> clauses of \<^verbatim>\<open>main\<close>, for an exception \<open>error\<close> that left the body
  of the \<^verbatim>\<open>try\<close>; \<open>options\<close> is \<open>None\<close> when \<^verbatim>\<open>parse_args\<close> did not return. An
  exception that neither clause matches goes on unchanged.
\<close>

definition handler :: "sys \<Rightarrow> 'd namespace option \<Rightarrow> exn \<Rightarrow> (event, unit) io" where
  "handler s options error =
     (case error of
        KeyboardInterrupt \<Rightarrow> io_raise (SystemExit 1)
      | Exception cls message \<Rightarrow>
          (case options of
             None \<Rightarrow> io_bind (post_mortem error) (\<lambda>_. io_raise error)
           | Some ns \<Rightarrow>
               (case getattr ns ''debug'' of
                  Inl e \<Rightarrow> io_raise e
                | Inr debug \<Rightarrow>
                    if truthy debug
                    then io_bind (post_mortem error) (\<lambda>_. io_raise error)
                    else ArgumentParser_error s message))
      | SystemExit status \<Rightarrow> io_raise error)"

text \<open>The outer \<^verbatim>\<open>try\<close> statement of \<^verbatim>\<open>main\<close>.\<close>

definition dispatch ::
    "sys \<Rightarrow> 'd parsed \<Rightarrow> (command \<Rightarrow> 'd namespace \<Rightarrow> (event, unit) io) \<Rightarrow>
     (event, unit) io" where
  "dispatch s parsed run =
     (case parse_args s parsed of
        (es, Inl error) \<Rightarrow> io_bind (es, Inr ()) (\<lambda>_. handler s (None :: 'd namespace option) error)
      | (es, Inr options) \<Rightarrow>
          (case execute_options s run options of
             (es', Inl error) \<Rightarrow>
               io_bind (es @ es', Inr ()) (\<lambda>_. handler s (Some options) error)
           | (es', Inr _) \<Rightarrow> (es @ es', Inr ())))"

text \<open>
  \<^verbatim>\<open>main\<close>. \<open>parse\<close> gives the outcome of \<^verbatim>\<open>parse_args\<close> for the parser built and
  \<^verbatim>\<open>argv[1:]\<close>. The call of \<^verbatim>\<open>argcomplete.autocomplete\<close> is left out: it acts only when
  a shell asks for completions.
\<close>

definition main ::
    "sys \<Rightarrow> string list \<Rightarrow> Profile option \<Rightarrow> string \<times> string \<Rightarrow>
     (string \<Rightarrow> 'd parser \<Rightarrow> (event, 'd parser) io) \<Rightarrow>
     ('d parser \<Rightarrow> string list \<Rightarrow> 'd parsed) \<Rightarrow>
     (command \<Rightarrow> 'd namespace \<Rightarrow> (event, unit) io) \<Rightarrow> string list \<Rightarrow> (event, unit) io" where
  "main s PROFILE_NAMES PROFILE_DEFAULT shell_doc reg parse run argv =
     io_bind (prepare_parser s PROFILE_NAMES PROFILE_DEFAULT shell_doc reg argv) (\<lambda>parser.
       dispatch s (parse parser (drop 1 argv)) run)"


section \<open>Basic facts\<close>

lemma io_bind_return [simp]: "io_bind (io_return x) f = f x"
  by (cases "f x") (simp add: io_bind_def io_return_def)

lemma io_bind_raise [simp]: "io_bind (io_raise e) f = io_raise e"
  by (simp add: io_bind_def io_raise_def)

lemma io_bind_Inr: "io_bind (es, Inr x) f = (es @ fst (f x), snd (f x))"
  by (cases "f x") (simp add: io_bind_def)

lemma io_bind_Inl [simp]: "io_bind (es, Inl e) f = (es, Inl e)"
  by (simp add: io_bind_def)

lemma find_append_none:
  "\<forall>x\<in>set xs. \<not> P x \<Longrightarrow> find P (xs @ ys) = find P ys"
  by (induction xs) auto

lemma find_map_preserved:
  assumes "\<And>x. P (f x) = P x"
  shows "find P (map f xs) = map_option f (find P xs)"
  by (induction xs) (auto simp: assms)


section \<open>Coloured text follows standard output\<close>

lemma set_tl_dropWhile: "x \<in> set (tl (dropWhile P cs)) \<Longrightarrow> x \<in> set cs"
  by (metis list.sel(2) list.set_sel(2) set_dropWhileD)

lemma ESC_in_ansi [simp]: "ESC \<in> set (ansi code)"
  by (simp add: ansi_def)

lemma render_plain_no_ESC: "ESC \<notin> set txt \<Longrightarrow> ESC \<notin> set (render False txt)"
proof (induction "False" "txt" rule: render.induct)
  case 1
  show ?case by simp
next
  case (2 c cs)
  then show ?case
    by (auto simp: Let_def dest: set_tl_dropWhile)
qed

lemma render_colors_ESC:
  "render True txt \<noteq> render False txt \<Longrightarrow> ESC \<in> set (render True txt)"
proof (induction "True" "txt" rule: render.induct)
  case 1
  then show ?case by simp
next
  case (2 c cs)
  then show ?case
    by (auto simp: Let_def split: if_splits)
qed

lemma error_prefix_colors:
  "render True ''{autored}Error:{/autored} '' = ESC # ''[91mError:'' @ ESC # ''[39m ''"
  by (simp add: Let_def codes_def ansi_def)

lemma error_prefix_plain: "render False ''{autored}Error:{/autored} '' = ''Error: ''"
  by (simp add: Let_def codes_def)

lemma ArgumentParser_error_eq:
  "ArgumentParser_error s message =
     ([Stderr (colorized s ''{autored}Error:{/autored} '' @ message @ newline)],
      Inl (SystemExit 2))"
  by (simp add: ArgumentParser_error_def argparse_exit_def newline_def)

text \<open>
  Claim C10. For every text, \<^verbatim>\<open>colorized\<close> returns the value with ANSI colour codes when
  standard output is a terminal and the value without them otherwise: a text that has
  no escape character of its own comes back without any when standard output is not a
  terminal, and a text in which some tag is recognised comes back with one when it is.
  The \<^verbatim>\<open>Error:\<close> prefix that the parser's error path writes to standard error is
  coloured exactly when standard output is a terminal; two systems that agree on
  standard output give the same error output, whatever standard error is.
\<close>

theorem colorized_follows_stdout:
  "colorized s txt =
     (if stdout_isatty s then value_colors (Color txt) else value_no_colors (Color txt))
   \<and> (ESC \<notin> set txt \<and> value_colors (Color txt) \<noteq> value_no_colors (Color txt)
        \<longrightarrow> (ESC \<in> set (colorized s txt) \<longleftrightarrow> stdout_isatty s))
   \<and> (ESC \<in> set (colorized s ''{autored}Error:{/autored} '') \<longleftrightarrow> stdout_isatty s)
   \<and> (ArgumentParser_error s message :: (event, 'a) io) =
        ([Stderr (colorized s ''{autored}Error:{/autored} '' @ message @ newline)],
         Inl (SystemExit 2))
   \<and> (stdout_isatty s = stdout_isatty s'
        \<longrightarrow> (ArgumentParser_error s message :: (event, 'a) io)
            = ArgumentParser_error s' message)"
proof -
  have "ESC \<in> set (colorized s txt) \<longleftrightarrow> stdout_isatty s"
    if "ESC \<notin> set txt" and "value_colors (Color txt) \<noteq> value_no_colors (Color txt)"
    using that render_plain_no_ESC [of "txt"] render_colors_ESC [of "txt"]
    by (auto simp: colorized_def Color_def)
  moreover have "ESC \<in> set (colorized s ''{autored}Error:{/autored} '') \<longleftrightarrow> stdout_isatty s"
    by (simp add: colorized_def Color_def error_prefix_colors error_prefix_plain ESC_def
        del: render.simps)
  moreover have "(ArgumentParser_error s message :: (event, 'a) io)
      = ArgumentParser_error s' message" if "stdout_isatty s = stdout_isatty s'"
    using that by (simp add: ArgumentParser_error_eq colorized_def)
  ultimately show ?thesis
    by (simp add: colorized_def ArgumentParser_error_eq)
qed

text \<open>
  With standard output redirected and standard error on a terminal the prefix is plain;
  with standard output on a terminal and standard error redirected it carries the codes.
\<close>

theorem colorized_follows_stdout_witness:
  "ESC \<notin> set ''{autored}Error:{/autored} ''
   \<and> value_colors (Color ''{autored}Error:{/autored} '')
       \<noteq> value_no_colors (Color ''{autored}Error:{/autored} '')
   \<and> stdout_isatty \<lparr>stdout_isatty = False, stderr_isatty = True\<rparr>
       = stdout_isatty \<lparr>stdout_isatty = False, stderr_isatty = False\<rparr>
   \<and> ESC \<notin> set (colorized \<lparr>stdout_isatty = False, stderr_isatty = True\<rparr>
                   ''{autored}Error:{/autored} '')
   \<and> (ArgumentParser_error \<lparr>stdout_isatty = False, stderr_isatty = True\<rparr> ''boom''
        :: (event, unit) io)
       = ArgumentParser_error \<lparr>stdout_isatty = False, stderr_isatty = False\<rparr> ''boom''"
proof -
  let ?s = "\<lparr>stdout_isatty = False, stderr_isatty = True\<rparr>"
  let ?s' = "\<lparr>stdout_isatty = False, stderr_isatty = False\<rparr>"
  let ?prefix = "''{autored}Error:{/autored} ''"
  note inst = colorized_follows_stdout [of ?s ?prefix "''boom''" ?s', where ?'a = unit]
  have plain: "ESC \<notin> set ?prefix"
    by (simp add: ESC_def)
  have tagged: "value_colors (Color ?prefix) \<noteq> value_no_colors (Color ?prefix)"
    by (simp add: Color_def error_prefix_colors error_prefix_plain del: render.simps)
  have same: "stdout_isatty ?s = stdout_isatty ?s'"
    by simp
  from inst plain tagged have "ESC \<in> set (colorized ?s ?prefix) \<longleftrightarrow> stdout_isatty ?s"
    by blast
  then have uncoloured: "ESC \<notin> set (colorized ?s ?prefix)"
    by simp
  from inst same
  have "(ArgumentParser_error ?s ''boom'' :: (event, unit) io) = ArgumentParser_error ?s' ''boom''"
    by blast
  with plain tagged same uncoloured show ?thesis
    by blast
qed


section \<open>The derivation of command names\<close>

text \<open>
  Claim C3, as the code has it. The name is a function of the class identifier alone:
  the identifier is lower-cased with underscores replaced by hyphens, and if that form
  is \<^verbatim>\<open>cmd-\<close> followed by a rest, the rest is the name, whatever it begins with;
  otherwise the form itself is the name. Capital letters mark no word boundary: the
  class \<^verbatim>\<open>CmdFooBar\<close> yields \<^verbatim>\<open>cmdfoobar\<close>, while \<^verbatim>\<open>cmd_foo_bar\<close> yields \<^verbatim>\<open>foo-bar\<close> and
  \<^verbatim>\<open>cmd_list_nodes\<close>, whose form is \<^verbatim>\<open>cmd-list-nodes\<close>, yields \<^verbatim>\<open>list-nodes\<close>.
\<close>

theorem Command_name_derivation:
  "(\<forall>r. lower (replace (CHR ''_'') (CHR ''-'') cls) = ''cmd-'' @ r \<longrightarrow> Command_name cls = r)
   \<and> (\<not> startswith (lower (replace (CHR ''_'') (CHR ''-'') cls)) ''cmd-''
        \<longrightarrow> Command_name cls = lower (replace (CHR ''_'') (CHR ''-'') cls))
   \<and> Command_name ''CmdFooBar'' = ''cmdfoobar''
   \<and> Command_name ''cmd_foo_bar'' = ''foo-bar''
   \<and> Command_name ''cmd_list_nodes'' = ''list-nodes''"
proof -
  have "Command_name ''CmdFooBar'' = ''cmdfoobar''"
    by (simp add: Command_name_def lower_def replace_def startswith_def lower_char_def)
  moreover have "Command_name ''cmd_foo_bar'' = ''foo-bar''"
    by (simp add: Command_name_def lower_def replace_def startswith_def lower_char_def)
  moreover have "Command_name ''cmd_list_nodes'' = ''list-nodes''"
    by (simp add: Command_name_def lower_def replace_def startswith_def lower_char_def)
  ultimately show ?thesis
    by (simp add: Command_name_def startswith_def)
qed

theorem Command_name_derivation_witness:
  "lower (replace (CHR ''_'') (CHR ''-'') ''cmd_cmd_list'') = ''cmd-'' @ ''cmd-list''
   \<and> Command_name ''cmd_cmd_list'' = ''cmd-list''
   \<and> \<not> startswith (lower (replace (CHR ''_'') (CHR ''-'') ''Shell'')) ''cmd-''
   \<and> Command_name ''Shell'' = ''shell''"
  using Command_name_derivation [of "''cmd_cmd_list''"] Command_name_derivation [of "''Shell''"]
  by (simp add: lower_def replace_def startswith_def lower_char_def)

text \<open>The claim as it is worded fails on its own example.\<close>

theorem Command_name_CmdFooBar_counterexample:
  "Command_name ''CmdFooBar'' \<noteq> ''foo-bar''"
  by (simp add: Command_name_def lower_def replace_def startswith_def lower_char_def)


section \<open>The subcommand registry is created once\<close>

lemma subparsers_cached:
  "subparsers_attr p = Some r \<Longrightarrow> subparsers s p = io_return (r, p)"
  by (simp add: subparsers_def)

lemma subparsers_first:
  assumes "subparsers_attr p = None" and "\<not> base_subparsers p"
  shows "subparsers s p =
     io_return
       (Registry ''sub-commands'' (Some ''COMMAND'') (prog p) [] [],
        Parser (prog p) (description p) (epilog p) (actions p) (defaults p) True
          (Some (Registry ''sub-commands'' (Some ''COMMAND'') (prog p) [] []))
          (Suc (created p)))"
  using assms
  by (simp add: subparsers_def argparse_add_subparsers_def set_metavar_def Let_def
      set_subparsers_attr_def)

lemma subparsers_times_cached:
  "subparsers_attr p = Some r \<Longrightarrow> subparsers_times s n p = io_return (replicate n r, p)"
  by (induction n) (simp_all add: subparsers_cached)

lemma registry_consistent_ArgumentParser:
  "registry_consistent (ArgumentParser prog' description' epilog')"
  by (simp add: registry_consistent_def ArgumentParser_def)

text \<open>
  The program keeps every node in such a state: a new node is in one, and declaring an
  option, setting a default, reading the registry and adding a child preserve it.
\<close>

lemma registry_consistent_set_actions [simp]:
  "registry_consistent (set_actions as p) = registry_consistent p"
  by (simp add: registry_consistent_def set_actions_def split: option.splits)

lemma registry_consistent_set_defaults [simp]:
  "registry_consistent (set_defaults k v p) = registry_consistent p"
  by (simp add: registry_consistent_def set_defaults_def set_actions_def set_defaults_dict_def
      split: option.splits)

lemma registry_consistent_add_argument:
  "registry_consistent p \<Longrightarrow> add_argument a p = (es, Inr p') \<Longrightarrow> registry_consistent p'"
  by (auto simp: add_argument_def io_return_def io_raise_def Let_def split: if_splits)

lemma registry_consistent_subparsers:
  assumes "registry_consistent p" and "subparsers s p = (es, Inr (r, p'))"
  shows "registry_consistent p' \<and> subparsers_attr p' = Some r"
proof (cases "subparsers_attr p")
  case None
  with assms(1) have "\<not> base_subparsers p" "created p = 0"
    by (simp_all add: registry_consistent_def)
  with assms(2) None show ?thesis
    by (auto simp: subparsers_first io_return_def registry_consistent_def)
next
  case (Some r')
  with assms show ?thesis
    by (auto simp: subparsers_cached io_return_def)
qed

lemma registry_consistent_add_parser:
  assumes "registry_consistent p"
    and "add_parser s name' help description' epilog' populate p = (es, Inr p')"
  shows "registry_consistent p'"
proof -
  obtain es1 res where acc: "subparsers s p = (es1, res)"
    by (cases "subparsers s p")
  show ?thesis
  proof (cases res)
    case (Inl e)
    with acc assms(2) show ?thesis
      by (simp add: add_parser_def)
  next
    case (Inr rp)
    obtain r p1 where rp: "rp = (r, p1)"
      by (cases rp)
    from acc Inr rp have "subparsers s p = (es1, Inr (r, p1))"
      by simp
    from registry_consistent_subparsers [OF assms(1) this]
    have p1: "registry_consistent p1" "subparsers_attr p1 = Some r"
      by simp_all
    from assms(2) obtain child where
      "p' = set_subparsers_attr (Some (registry_insert name' help child r)) p1"
      by (auto simp: add_parser_def acc Inr rp io_bind_def io_return_def
          split: prod.splits sum.splits)
    with p1 show ?thesis
      by (simp add: registry_consistent_def set_subparsers_attr_def registry_insert_def)
  qed
qed

text \<open>
  Claim C2. On a node whose registry state is one the program can make, any number
  \<open>n > 0\<close> of accesses in a row raises nothing, writes nothing and returns the same
  registry every time; that registry has the title \<^verbatim>\<open>sub-commands\<close> and the metavar
  \<^verbatim>\<open>COMMAND\<close>; afterwards exactly one registry has ever been created for the node, so
  the configuration was set once, by the first access; and the node is again in such a
  state. The one-shot method \<^verbatim>\<open>add_subparsers\<close> raises on every node and changes none.
\<close>

theorem subparsers_idempotent:
  assumes "registry_consistent p" and "0 < n"
  shows "\<exists>r p'. subparsers_times s n p = ([], Inr (replicate n r, p'))
           \<and> subparsers_attr p' = Some r
           \<and> title r = ''sub-commands'' \<and> reg_metavar r = Some ''COMMAND''
           \<and> created p' = 1 \<and> registry_consistent p'
           \<and> (\<forall>q :: 'a parser. ArgumentParser_add_subparsers q =
                 ([], Inl (Exception ''NotImplementedError''
                             ''add_subparsers has been disabled'')))"
proof -
  from \<open>0 < n\<close> obtain m where n: "n = Suc m"
    by (cases n) auto
  have disabled: "\<forall>q :: 'a parser. ArgumentParser_add_subparsers q =
      ([], Inl (Exception ''NotImplementedError'' ''add_subparsers has been disabled''))"
    by (simp add: ArgumentParser_add_subparsers_def io_raise_def)
  show ?thesis
  proof (cases "subparsers_attr p")
    case None
    with assms(1) have fresh: "\<not> base_subparsers p" "created p = 0"
      by (simp_all add: registry_consistent_def)
    let ?r = "Registry ''sub-commands'' (Some ''COMMAND'') (prog p) [] []"
    let ?p = "Parser (prog p) (description p) (epilog p) (actions p) (defaults p) True
                (Some ?r) (Suc (created p))"
    have "subparsers_times s n p = ([], Inr (replicate n ?r, ?p))"
      unfolding n
      by (simp add: subparsers_first [OF None fresh(1)] subparsers_times_cached)
         (simp add: io_return_def)
    moreover have "registry_consistent ?p"
      using fresh by (simp add: registry_consistent_def)
    ultimately show ?thesis
      using fresh disabled by auto
  next
    case (Some r)
    then have "subparsers_times s n p = ([], Inr (replicate n r, p))"
      by (simp add: subparsers_times_cached io_return_def)
    with Some assms(1) disabled show ?thesis
      by (auto simp: registry_consistent_def)
  qed
qed

text \<open>Three accesses on a freshly constructed node.\<close>

theorem subparsers_idempotent_witness:
  "registry_consistent (ArgumentParser ''maas'' None None :: unit parser)
   \<and> (0 :: nat) < 3
   \<and> (\<exists>r p'. subparsers_times \<lparr>stdout_isatty = True, stderr_isatty = True\<rparr> 3
                 (ArgumentParser ''maas'' None None :: unit parser)
               = ([], Inr (replicate 3 r, p'))
             \<and> subparsers_attr p' = Some r
             \<and> title r = ''sub-commands'' \<and> reg_metavar r = Some ''COMMAND''
             \<and> created p' = 1 \<and> registry_consistent p'
             \<and> (\<forall>q :: unit parser. ArgumentParser_add_subparsers q =
                   ([], Inl (Exception ''NotImplementedError''
                               ''add_subparsers has been disabled''))))"
proof -
  have c: "registry_consistent (ArgumentParser ''maas'' None None :: unit parser)"
    by (rule registry_consistent_ArgumentParser)
  have n: "(0 :: nat) < 3"
    by simp
  from subparsers_idempotent [OF c n] c n show ?thesis
    by blast
qed


section \<open>The flags of the command archetypes\<close>

lemma actions_set_actions [simp]: "actions (set_actions as p) = as"
  by (simp add: set_actions_def)

lemma actions_set_defaults_dict [simp]: "actions (set_defaults_dict ds p) = actions p"
  by (simp add: set_defaults_dict_def)

lemma add_argument_new:
  assumes "option_string a \<notin> set (map option_string (actions p))"
  shows "\<exists>d. add_argument a p = ([], Inr (set_actions (actions p @ [a\<lparr>default_value := d\<rparr>]) p))
           \<and> (default_value a \<noteq> VNone \<longrightarrow> d = default_value a)"
  using assms
  by (auto simp: add_argument_def io_return_def Let_def split: pyvalue.splits option.splits)

lemma find_flag_appended:
  assumes "flag \<notin> set (map option_string as)" and "option_string a = flag"
  shows "find (\<lambda>a. option_string a = flag) (as @ [a]) = Some a"
proof -
  from assms(1) have "\<forall>x\<in>set as. \<not> option_string x = flag"
    by auto
  then have "find (\<lambda>a. option_string a = flag) (as @ [a]) = find (\<lambda>a. option_string a = flag) [a]"
    by (rule find_append_none)
  with assms(2) show ?thesis
    by simp
qed

lemma find_flag_set_defaults:
  "find (\<lambda>a. option_string a = flag) (actions (set_defaults k v p)) =
     map_option (\<lambda>a. if dest a = k then a\<lparr>default_value := v\<rparr> else a)
       (find (\<lambda>a. option_string a = flag) (actions p))"
  unfolding set_defaults_def actions_set_actions actions_set_defaults_dict
  by (rule find_map_preserved) simp

lemma dest_profile_name:
  "option_string a = ''--profile-name'' \<Longrightarrow> dest a = ''profile_name''"
  by (simp add: dest_def replace_def)

lemma dest_output_format:
  "option_string a = ''--output-format'' \<Longrightarrow> dest a = ''output_format''"
  by (simp add: dest_def replace_def)

lemma parse_flag_found:
  "find (\<lambda>a. option_string a = flag) (actions p) = Some a \<Longrightarrow>
   parse_flag s wording lookup p flag given =
     (case parse_option lookup a given of
        Inl err \<Rightarrow>
          ([Stderr (colorized s ''{autored}Error:{/autored} '' @ wording err @ newline)],
           Inl (SystemExit 2))
      | Inr v \<Rightarrow> ([], Inr v))"
  by (simp add: parse_flag_def ArgumentParser_error_eq io_return_def split: sum.splits)

lemma colorized_plain_prefix:
  "\<not> stdout_isatty s \<Longrightarrow> colorized s ''{autored}Error:{/autored} '' = ''Error: ''"
  by (simp add: colorized_def Color_def error_prefix_plain del: render.simps)

text \<open>
  Claim C4. A profile-bound command declares \<^verbatim>\<open>--profile-name\<close> on a parser that does
  not have the option yet. The option is required exactly when there is no default
  profile, and its choices are the profile name list. With no default profile, leaving
  the option out is reported through the parser's error path, which raises
  \<^verbatim>\<open>SystemExit(2)\<close>; with a default profile, leaving it out gives the default profile's
  name. In both cases a value is accepted exactly when it is in the name list, and any
  other value ends in \<^verbatim>\<open>SystemExit(2)\<close> as well.
\<close>

theorem profile_name_flag:
  assumes "''--profile-name'' \<notin> set (map option_string (actions p0))"
  shows "\<exists>p a. OriginCommandBase_init PROFILE_NAMES PROFILE_DEFAULT p0 = ([], Inr p)
     \<and> find (\<lambda>a. option_string a = ''--profile-name'') (actions p) = Some a
     \<and> required a = (PROFILE_DEFAULT = None)
     \<and> choices a = choices_list PROFILE_NAMES
     \<and> (PROFILE_DEFAULT = None \<longrightarrow>
          parse_flag s wording lookup p ''--profile-name'' None =
            ([Stderr (colorized s ''{autored}Error:{/autored} ''
                      @ wording (required_missing ''--profile-name'') @ newline)],
             Inl (SystemExit 2)))
     \<and> (\<forall>d. PROFILE_DEFAULT = Some d \<longrightarrow>
          parse_flag s wording lookup p ''--profile-name'' None = ([], Inr (VStr (name d))))
     \<and> (\<forall>v. parse_flag s wording lookup p ''--profile-name'' (Some v) =
          (if v \<in> set PROFILE_NAMES then ([], Inr (VStr v))
           else ([Stderr (colorized s ''{autored}Error:{/autored} ''
                          @ wording (invalid_choice ''--profile-name'' v) @ newline)],
                 Inl (SystemExit 2))))"
proof -
  define kw :: "'a argument" where
    "kw = \<lparr>option_string = ''--profile-name'', action = store, conv = type_str,
           choices = choices_list PROFILE_NAMES, required = (PROFILE_DEFAULT = None),
           default_value = VNone, metavar = Some ''NAME'',
           arg_help = profile_name_help PROFILE_DEFAULT\<rparr>"
  have init_kw: "OriginCommandBase_init PROFILE_NAMES PROFILE_DEFAULT p0 =
      io_bind (add_argument kw p0) (\<lambda>parser. io_return
        (case PROFILE_DEFAULT of None \<Rightarrow> parser
         | Some d \<Rightarrow> set_defaults ''profile_name'' (VStr (name d)) parser))"
    by (simp add: OriginCommandBase_init_def kw_def)
  from assms have "option_string kw \<notin> set (map option_string (actions p0))"
    by (simp add: kw_def)
  from add_argument_new [OF this] obtain d where
    added: "add_argument kw p0 = ([], Inr (set_actions (actions p0 @ [kw\<lparr>default_value := d\<rparr>]) p0))"
    by blast
  define a1 where "a1 = kw\<lparr>default_value := d\<rparr>"
  define p1 where "p1 = set_actions (actions p0 @ [a1]) p0"
  have a1: "option_string a1 = ''--profile-name''" "action a1 = store" "conv a1 = type_str"
    "choices a1 = choices_list PROFILE_NAMES" "required a1 = (PROFILE_DEFAULT = None)"
    by (simp_all add: a1_def kw_def)
  have found1: "find (\<lambda>a. option_string a = ''--profile-name'') (actions p1) = Some a1"
    using assms by (simp add: p1_def find_flag_appended a1)
  show ?thesis
  proof (cases PROFILE_DEFAULT)
    case None
    have init: "OriginCommandBase_init PROFILE_NAMES PROFILE_DEFAULT p0 = ([], Inr p1)"
      unfolding init_kw added
      by (simp add: None io_bind_Inr io_return_def p1_def a1_def)
    have absent: "parse_flag s wording lookup p1 ''--profile-name'' None =
        ([Stderr (colorized s ''{autored}Error:{/autored} ''
                  @ wording (required_missing ''--profile-name'') @ newline)],
         Inl (SystemExit 2))"
      unfolding parse_flag_found [OF found1]
      by (simp add: parse_option_def a1 None)
    have given: "parse_flag s wording lookup p1 ''--profile-name'' (Some v) =
          (if v \<in> set PROFILE_NAMES then ([], Inr (VStr v))
           else ([Stderr (colorized s ''{autored}Error:{/autored} ''
                          @ wording (invalid_choice ''--profile-name'' v) @ newline)],
                 Inl (SystemExit 2)))" for v
      unfolding parse_flag_found [OF found1]
      by (simp add: parse_option_def a1)
    from None init found1 a1 absent given show ?thesis
      by auto
  next
    case (Some dflt)
    define a2 where "a2 = a1\<lparr>default_value := VStr (name dflt)\<rparr>"
    define p2 where "p2 = set_defaults ''profile_name'' (VStr (name dflt)) p1"
    have a2: "option_string a2 = ''--profile-name''" "action a2 = store" "conv a2 = type_str"
      "choices a2 = choices_list PROFILE_NAMES" "required a2 = (PROFILE_DEFAULT = None)"
      "default_value a2 = VStr (name dflt)"
      by (simp_all add: a2_def a1)
    have init: "OriginCommandBase_init PROFILE_NAMES PROFILE_DEFAULT p0 = ([], Inr p2)"
      unfolding init_kw added
      by (simp add: Some io_bind_Inr io_return_def p1_def a1_def p2_def)
    have found2: "find (\<lambda>a. option_string a = ''--profile-name'') (actions p2) = Some a2"
      unfolding p2_def find_flag_set_defaults found1
      by (simp add: dest_profile_name a1 a2_def)
    have absent: "parse_flag s wording lookup p2 ''--profile-name'' None =
        ([], Inr (VStr (name dflt)))"
      unfolding parse_flag_found [OF found2]
      by (simp add: parse_option_def a2 Some)
    have given: "parse_flag s wording lookup p2 ''--profile-name'' (Some v) =
          (if v \<in> set PROFILE_NAMES then ([], Inr (VStr v))
           else ([Stderr (colorized s ''{autored}Error:{/autored} ''
                          @ wording (invalid_choice ''--profile-name'' v) @ newline)],
                 Inl (SystemExit 2)))" for v
      unfolding parse_flag_found [OF found2]
      by (simp add: parse_option_def a2)
    from Some init found2 a2 absent given show ?thesis
      by auto
  qed
qed

text \<open>Two profiles, first without and then with a default.\<close>

theorem profile_name_flag_witness:
  "''--profile-name''
     \<notin> set (map option_string (actions (ArgumentParser ''maas nodes'' None None :: unit parser)))
   \<and> (\<exists>p a. OriginCommandBase_init [''dev'', ''prod''] None
               (ArgumentParser ''maas nodes'' None None :: unit parser) = ([], Inr p)
         \<and> find (\<lambda>a. option_string a = ''--profile-name'') (actions p) = Some a
         \<and> required a
         \<and> parse_flag \<lparr>stdout_isatty = False, stderr_isatty = False\<rparr>
              (\<lambda>e. ''bad arguments'') (\<lambda>v. None) p ''--profile-name'' None
            = ([Stderr (''Error: bad arguments'' @ newline)], Inl (SystemExit 2))
         \<and> parse_flag \<lparr>stdout_isatty = False, stderr_isatty = False\<rparr>
              (\<lambda>e. ''bad arguments'') (\<lambda>v. None) p ''--profile-name'' (Some ''prod'')
            = ([], Inr (VStr ''prod'')))
   \<and> (\<exists>p a. OriginCommandBase_init [''dev'', ''prod''] (Some \<lparr>name = ''dev''\<rparr>)
               (ArgumentParser ''maas nodes'' None None :: unit parser) = ([], Inr p)
         \<and> find (\<lambda>a. option_string a = ''--profile-name'') (actions p) = Some a
         \<and> \<not> required a
         \<and> parse_flag \<lparr>stdout_isatty = False, stderr_isatty = False\<rparr>
              (\<lambda>e. ''bad arguments'') (\<lambda>v. None) p ''--profile-name'' None
            = ([], Inr (VStr ''dev''))
         \<and> parse_flag \<lparr>stdout_isatty = False, stderr_isatty = False\<rparr>
              (\<lambda>e. ''bad arguments'') (\<lambda>v. None) p ''--profile-name'' (Some ''staging'')
            = ([Stderr (''Error: bad arguments'' @ newline)], Inl (SystemExit 2)))"
proof -
  let ?s = "\<lparr>stdout_isatty = False, stderr_isatty = False\<rparr>"
  let ?p0 = "ArgumentParser ''maas nodes'' None None :: unit parser"
  have fresh: "''--profile-name'' \<notin> set (map option_string (actions ?p0))"
    by (simp add: ArgumentParser_def)
  from profile_name_flag
    [OF fresh, of "[''dev'', ''prod'']" None ?s "\<lambda>e. ''bad arguments''" "\<lambda>v. None"]
  have without: "\<exists>p a. OriginCommandBase_init [''dev'', ''prod''] None ?p0 = ([], Inr p)
         \<and> find (\<lambda>a. option_string a = ''--profile-name'') (actions p) = Some a
         \<and> required a
         \<and> parse_flag ?s (\<lambda>e. ''bad arguments'') (\<lambda>v. None) p ''--profile-name'' None
            = ([Stderr (''Error: bad arguments'' @ newline)], Inl (SystemExit 2))
         \<and> parse_flag ?s (\<lambda>e. ''bad arguments'') (\<lambda>v. None) p ''--profile-name'' (Some ''prod'')
            = ([], Inr (VStr ''prod''))"
    by (fastforce simp: colorized_plain_prefix)
  from profile_name_flag
    [OF fresh, of "[''dev'', ''prod'']" "Some \<lparr>name = ''dev''\<rparr>" ?s
       "\<lambda>e. ''bad arguments''" "\<lambda>v. None"]
  have "with": "\<exists>p a. OriginCommandBase_init [''dev'', ''prod''] (Some \<lparr>name = ''dev''\<rparr>) ?p0
           = ([], Inr p)
         \<and> find (\<lambda>a. option_string a = ''--profile-name'') (actions p) = Some a
         \<and> \<not> required a
         \<and> parse_flag ?s (\<lambda>e. ''bad arguments'') (\<lambda>v. None) p ''--profile-name'' None
            = ([], Inr (VStr ''dev''))
         \<and> parse_flag ?s (\<lambda>e. ''bad arguments'') (\<lambda>v. None) p ''--profile-name''
              (Some ''staging'')
            = ([Stderr (''Error: bad arguments'' @ newline)], Inl (SystemExit 2))"
    by (fastforce simp: colorized_plain_prefix)
  from fresh without "with" show ?thesis
    by blast
qed

text \<open>
  Claim C5. A table-emitting command declares \<^verbatim>\<open>--output-format\<close> with the default
  \<open>pretty\<close> when standard output is a terminal at that moment and \<open>plain\<close> otherwise;
  leaving the option out gives that default. The choices are the enumeration itself:
  every member is in them, and an argument string is accepted exactly when it is the
  value of a member, which is then the result.
\<close>

theorem output_format_flag:
  assumes "''--output-format'' \<notin> set (map option_string (actions p0))"
  shows "\<exists>p a. TableCommand_init s p0 = ([], Inr p)
     \<and> find (\<lambda>a. option_string a = ''--output-format'') (actions p) = Some a
     \<and> default_value a = VTarget (if stdout_isatty s then pretty else plain)
     \<and> choices a = choices_RenderTarget
     \<and> (\<forall>t. in_choices (choices a) (VTarget t))
     \<and> parse_flag s' wording lookup p ''--output-format'' None =
          ([], Inr (VTarget (if stdout_isatty s then pretty else plain)))
     \<and> (\<forall>v. parse_flag s' wording lookup p ''--output-format'' (Some v) =
          (case lookup v of
             Some t \<Rightarrow> ([], Inr (VTarget t))
           | None \<Rightarrow>
               ([Stderr (colorized s' ''{autored}Error:{/autored} ''
                         @ wording (invalid_value ''--output-format'' v) @ newline)],
                Inl (SystemExit 2))))"
proof -
  define kw :: "'a argument" where
    "kw = \<lparr>option_string = ''--output-format'', action = store,
            conv = type_RenderTarget, choices = choices_RenderTarget, required = False,
            default_value = VTarget (if stdout_isatty s then pretty else plain),
            metavar = None,
            arg_help = help_text
              (''Output tabular data as a formatted table (pretty), a ''
               @ ''formatted table using only ASCII for borders (plain), or ''
               @ ''one of several dump formats. Default: %(default)s.'')\<rparr>"
  have init_kw: "TableCommand_init s p0 = add_argument kw p0"
    by (simp add: TableCommand_init_def kw_def Let_def)
  have kw: "option_string kw = ''--output-format''" "action kw = store"
    "conv kw = type_RenderTarget" "choices kw = choices_RenderTarget" "\<not> required kw"
    "default_value kw = VTarget (if stdout_isatty s then pretty else plain)"
    by (simp_all add: kw_def)
  from assms have "option_string kw \<notin> set (map option_string (actions p0))"
    by (simp add: kw)
  from add_argument_new [OF this] obtain d where
    added: "add_argument kw p0 = ([], Inr (set_actions (actions p0 @ [kw\<lparr>default_value := d\<rparr>]) p0))"
    and "d = default_value kw"
    by (auto simp: kw)
  then have added': "add_argument kw p0 = ([], Inr (set_actions (actions p0 @ [kw]) p0))"
    by simp
  define p1 where "p1 = set_actions (actions p0 @ [kw]) p0"
  have found: "find (\<lambda>a. option_string a = ''--output-format'') (actions p1) = Some kw"
    using assms by (simp add: p1_def find_flag_appended kw)
  have absent: "parse_flag s' wording lookup p1 ''--output-format'' None =
      ([], Inr (VTarget (if stdout_isatty s then pretty else plain)))"
    unfolding parse_flag_found [OF found]
    by (simp add: parse_option_def kw)
  have given: "parse_flag s' wording lookup p1 ''--output-format'' (Some v) =
      (case lookup v of
         Some t \<Rightarrow> ([], Inr (VTarget t))
       | None \<Rightarrow>
           ([Stderr (colorized s' ''{autored}Error:{/autored} ''
                     @ wording (invalid_value ''--output-format'' v) @ newline)],
            Inl (SystemExit 2)))" for v
    unfolding parse_flag_found [OF found]
    by (simp add: parse_option_def kw split: option.splits)
  have "TableCommand_init s p0 = ([], Inr p1)"
    by (simp add: init_kw added' p1_def)
  with found kw absent given show ?thesis
    by auto
qed

theorem output_format_flag_witness:
  "''--output-format''
     \<notin> set (map option_string (actions (ArgumentParser ''maas nodes'' None None :: unit parser)))
   \<and> (\<exists>p a. TableCommand_init \<lparr>stdout_isatty = True, stderr_isatty = False\<rparr>
               (ArgumentParser ''maas nodes'' None None :: unit parser) = ([], Inr p)
         \<and> find (\<lambda>a. option_string a = ''--output-format'') (actions p) = Some a
         \<and> default_value a = VTarget pretty
         \<and> parse_flag \<lparr>stdout_isatty = False, stderr_isatty = False\<rparr>
              (\<lambda>e. ''bad arguments'')
              (\<lambda>v. if v = ''pretty'' then Some pretty else if v = ''plain'' then Some plain
                    else None)
              p ''--output-format'' None
            = ([], Inr (VTarget pretty))
         \<and> parse_flag \<lparr>stdout_isatty = False, stderr_isatty = False\<rparr>
              (\<lambda>e. ''bad arguments'')
              (\<lambda>v. if v = ''pretty'' then Some pretty else if v = ''plain'' then Some plain
                    else None)
              p ''--output-format'' (Some ''plain'')
            = ([], Inr (VTarget plain))
         \<and> parse_flag \<lparr>stdout_isatty = False, stderr_isatty = False\<rparr>
              (\<lambda>e. ''bad arguments'')
              (\<lambda>v. if v = ''pretty'' then Some pretty else if v = ''plain'' then Some plain
                    else None)
              p ''--output-format'' (Some ''fancy'')
            = ([Stderr (''Error: bad arguments'' @ newline)], Inl (SystemExit 2)))"
proof -
  let ?s = "\<lparr>stdout_isatty = False, stderr_isatty = False\<rparr>"
  let ?p0 = "ArgumentParser ''maas nodes'' None None :: unit parser"
  let ?lookup = "\<lambda>v. if v = ''pretty'' then Some pretty else if v = ''plain'' then Some plain
                    else None"
  have fresh: "''--output-format'' \<notin> set (map option_string (actions ?p0))"
    by (simp add: ArgumentParser_def)
  from output_format_flag
    [OF fresh, of "\<lparr>stdout_isatty = True, stderr_isatty = False\<rparr>" ?s
       "\<lambda>e. ''bad arguments''" ?lookup]
  have "\<exists>p a. TableCommand_init \<lparr>stdout_isatty = True, stderr_isatty = False\<rparr> ?p0
           = ([], Inr p)
         \<and> find (\<lambda>a. option_string a = ''--output-format'') (actions p) = Some a
         \<and> default_value a = VTarget pretty
         \<and> parse_flag ?s (\<lambda>e. ''bad arguments'') ?lookup p ''--output-format'' None
            = ([], Inr (VTarget pretty))
         \<and> parse_flag ?s (\<lambda>e. ''bad arguments'') ?lookup p ''--output-format'' (Some ''plain'')
            = ([], Inr (VTarget plain))
         \<and> parse_flag ?s (\<lambda>e. ''bad arguments'') ?lookup p ''--output-format'' (Some ''fancy'')
            = ([Stderr (''Error: bad arguments'' @ newline)], Inl (SystemExit 2))"
    by (fastforce simp: colorized_plain_prefix)
  with fresh show ?thesis
    by blast
qed

text \<open>
  The combined archetype declares both options, the output format first, so both
  statements above apply to it.
\<close>

lemma option_strings_set_defaults [simp]:
  "map option_string (actions (set_defaults k v p)) = map option_string (actions p)"
  by (simp add: set_defaults_def set_actions_def set_defaults_dict_def comp_def)

lemma OriginTableCommand_init_flags:
  assumes "''--output-format'' \<notin> set (map option_string (actions p0))"
    and "''--profile-name'' \<notin> set (map option_string (actions p0))"
  shows "\<exists>p. OriginTableCommand_init s PROFILE_NAMES PROFILE_DEFAULT p0 = ([], Inr p)
           \<and> map option_string (actions p)
               = map option_string (actions p0) @ [''--output-format'', ''--profile-name'']"
  using assms
  by (cases PROFILE_DEFAULT)
     (auto simp: OriginTableCommand_init_def TableCommand_init_def OriginCommandBase_init_def
       add_argument_def io_return_def io_bind_Inr Let_def set_actions_def
       split: pyvalue.splits option.splits)


section \<open>Assembling the parser tree\<close>

lemma io_bind_assoc: "io_bind (io_bind m f) g = io_bind m (\<lambda>x. io_bind (f x) g)"
  by (auto simp: io_bind_def split: prod.splits sum.splits)

lemma io_bind_pure: "io_bind ([], Inr x) f = f x"
  by (simp add: io_bind_Inr)

lemma grouping_tree:
  "\<exists>base r shell.
     io_bind (Command_register s cmd_shell ''cmd_shell'' shell_doc
                (cmd_shell_init PROFILE_NAMES PROFILE_DEFAULT) None
                (ArgumentParser argv0 (Some ''Interact with a remote MAAS server.'')
                   (Some ''http://maas.ubuntu.com/''))) (\<lambda>parser.
     io_bind (add_parser s ''acquire'' ''Acquire nodes or other resources.''
                None None io_return parser) (\<lambda>parser.
     io_bind (add_parser s ''launch'' ''Launch nodes or other resources.''
                None None io_return parser) (\<lambda>parser.
     io_bind (add_parser s ''release'' ''Release nodes or other resources.''
                None None io_return parser) (\<lambda>parser.
     add_parser s ''list'' ''List nodes, files, tags, and other resources.''
                None None io_return parser))))
       = ([], Inr base)
     \<and> actions base = [] \<and> subparsers_attr base = Some r \<and> created base = 1
     \<and> map fst (name_parser_map r) = [''shell'', ''acquire'', ''launch'', ''release'', ''list'']
     \<and> map_of (name_parser_map r) ''shell'' = Some shell
     \<and> map_of (defaults shell) ''execute'' = Some (VCommand cmd_shell)
     \<and> (\<forall>g \<in> set [''acquire'', ''launch'', ''release'', ''list''].
           \<exists>child. map_of (name_parser_map r) g = Some child
             \<and> defaults child = [] \<and> actions child = [] \<and> subparsers_attr child = None)"
  by (cases shell_doc; cases PROFILE_DEFAULT)
     (simp_all add: Command_register_def add_parser_def subparsers_def
       argparse_add_subparsers_def ArgumentParser_def cmd_shell_init_def add_argument_def
       set_defaults_def set_actions_def set_defaults_dict_def set_subparsers_attr_def
       set_metavar_def new_child_def registry_insert_def Let_def io_return_def io_bind_pure
       Command_name_def lower_def replace_def startswith_def lower_char_def dest_def)

lemma add_debug_argument:
  assumes "''--debug'' \<notin> set (map option_string (actions p))"
  shows "add_argument debug_argument p =
           ([], Inr (set_actions (actions p @ [debug_argument]) p))"
  using assms
  by (simp add: add_argument_def debug_argument_def io_return_def)

lemma subparsers_attr_set_actions [simp]:
  "subparsers_attr (set_actions as p) = subparsers_attr p"
  by (simp add: set_actions_def)

lemma prepare_parser_steps:
  "\<exists>(base :: 'a parser) r shell.
     (\<forall>reg. prepare_parser s PROFILE_NAMES PROFILE_DEFAULT shell_doc reg (argv0 # args) =
       io_bind (reg ''profiles'' base) (\<lambda>parser.
       io_bind (reg ''files'' parser) (\<lambda>parser.
       io_bind (reg ''nodes'' parser) (\<lambda>parser.
       io_bind (reg ''tags'' parser) (\<lambda>parser.
       io_bind (reg ''users'' parser) (\<lambda>parser.
         add_argument debug_argument parser))))))
     \<and> actions base = [] \<and> subparsers_attr base = Some r \<and> created base = 1
     \<and> map fst (name_parser_map r) = [''shell'', ''acquire'', ''launch'', ''release'', ''list'']
     \<and> map_of (name_parser_map r) ''shell'' = Some shell
     \<and> map_of (defaults shell) ''execute'' = Some (VCommand cmd_shell)
     \<and> (\<forall>g \<in> set [''acquire'', ''launch'', ''release'', ''list''].
           \<exists>child. map_of (name_parser_map r) g = Some child
             \<and> defaults child = [] \<and> actions child = [] \<and> subparsers_attr child = None)"
proof -
  define five :: "(event, 'a parser) io" where
    "five =
       io_bind (Command_register s cmd_shell ''cmd_shell'' shell_doc
                  (cmd_shell_init PROFILE_NAMES PROFILE_DEFAULT) None
                  (ArgumentParser argv0 (Some ''Interact with a remote MAAS server.'')
                     (Some ''http://maas.ubuntu.com/''))) (\<lambda>parser.
       io_bind (add_parser s ''acquire'' ''Acquire nodes or other resources.''
                  None None io_return parser) (\<lambda>parser.
       io_bind (add_parser s ''launch'' ''Launch nodes or other resources.''
                  None None io_return parser) (\<lambda>parser.
       io_bind (add_parser s ''release'' ''Release nodes or other resources.''
                  None None io_return parser) (\<lambda>parser.
       add_parser s ''list'' ''List nodes, files, tags, and other resources.''
                  None None io_return parser))))"
  have split: "prepare_parser s PROFILE_NAMES PROFILE_DEFAULT shell_doc reg (argv0 # args) =
      io_bind five (\<lambda>parser.
        io_bind (register_submodules reg
                   [''profiles'', ''files'', ''nodes'', ''tags'', ''users''] parser)
          (add_argument debug_argument))" for reg
    by (simp add: prepare_parser_def five_def io_bind_assoc)
  have "\<exists>(base :: 'a parser) r shell. five = ([], Inr base)
     \<and> actions base = [] \<and> subparsers_attr base = Some r \<and> created base = 1
     \<and> map fst (name_parser_map r) = [''shell'', ''acquire'', ''launch'', ''release'', ''list'']
     \<and> map_of (name_parser_map r) ''shell'' = Some shell
     \<and> map_of (defaults shell) ''execute'' = Some (VCommand cmd_shell)
     \<and> (\<forall>g \<in> set [''acquire'', ''launch'', ''release'', ''list''].
           \<exists>child. map_of (name_parser_map r) g = Some child
             \<and> defaults child = [] \<and> actions child = [] \<and> subparsers_attr child = None)"
    unfolding five_def by (rule grouping_tree)
  then obtain base :: "'a parser" and r shell where
    five: "five = ([], Inr base)"
    and base: "actions base = []" "subparsers_attr base = Some r" "created base = 1"
      "map fst (name_parser_map r) = [''shell'', ''acquire'', ''launch'', ''release'', ''list'']"
      "map_of (name_parser_map r) ''shell'' = Some shell"
      "map_of (defaults shell) ''execute'' = Some (VCommand cmd_shell)"
      "\<forall>g \<in> set [''acquire'', ''launch'', ''release'', ''list''].
           \<exists>child. map_of (name_parser_map r) g = Some child
             \<and> defaults child = [] \<and> actions child = [] \<and> subparsers_attr child = None"
    by (elim exE conjE) (rule that, assumption+)
  have order: "prepare_parser s PROFILE_NAMES PROFILE_DEFAULT shell_doc reg (argv0 # args) =
       io_bind (reg ''profiles'' base) (\<lambda>parser.
       io_bind (reg ''files'' parser) (\<lambda>parser.
       io_bind (reg ''nodes'' parser) (\<lambda>parser.
       io_bind (reg ''tags'' parser) (\<lambda>parser.
       io_bind (reg ''users'' parser) (\<lambda>parser.
         add_argument debug_argument parser)))))" for reg
    unfolding split five
    by (simp add: io_bind_pure io_bind_assoc)
  show ?thesis
  proof (intro exI conjI)
    show "\<forall>reg. prepare_parser s PROFILE_NAMES PROFILE_DEFAULT shell_doc reg (argv0 # args) =
       io_bind (reg ''profiles'' base) (\<lambda>parser.
       io_bind (reg ''files'' parser) (\<lambda>parser.
       io_bind (reg ''nodes'' parser) (\<lambda>parser.
       io_bind (reg ''tags'' parser) (\<lambda>parser.
       io_bind (reg ''users'' parser) (\<lambda>parser.
         add_argument debug_argument parser)))))"
      by (intro allI) (rule order)
  qed (fact base)+
qed

lemma prepare_parser_no_modules:
  "\<exists>parser :: 'a parser.
     prepare_parser s PROFILE_NAMES PROFILE_DEFAULT shell_doc (\<lambda>_. io_return) (argv0 # args)
       = ([], Inr parser)
     \<and> actions parser = [debug_argument]"
proof -
  from prepare_parser_steps [of s PROFILE_NAMES PROFILE_DEFAULT shell_doc argv0 args]
  obtain base :: "'a parser" where
    order: "\<forall>reg. prepare_parser s PROFILE_NAMES PROFILE_DEFAULT shell_doc reg (argv0 # args) =
       io_bind (reg ''profiles'' base) (\<lambda>parser.
       io_bind (reg ''files'' parser) (\<lambda>parser.
       io_bind (reg ''nodes'' parser) (\<lambda>parser.
       io_bind (reg ''tags'' parser) (\<lambda>parser.
       io_bind (reg ''users'' parser) (\<lambda>parser.
         add_argument debug_argument parser)))))"
    and empty: "actions base = []"
    by (elim exE conjE) (rule that, assumption+)
  from order
  have "prepare_parser s PROFILE_NAMES PROFILE_DEFAULT shell_doc (\<lambda>_. io_return) (argv0 # args)
          = add_argument debug_argument base"
    by simp
  with empty show ?thesis
    by (simp add: add_debug_argument)
qed

text \<open>
  Claim C8. \<^verbatim>\<open>prepare_parser\<close> first builds a tree \<open>base\<close> that does not depend on
  what the command-group modules do: the root with no option of its own and one
  registry whose children are, in this order, \<^verbatim>\<open>shell\<close>, with the shell command as its
  \<^verbatim>\<open>execute\<close> default, and \<^verbatim>\<open>acquire\<close>, \<^verbatim>\<open>launch\<close>, \<^verbatim>\<open>release\<close>, \<^verbatim>\<open>list\<close>, each
  with no default, no option and no registry. It then runs the registration of
  \<^verbatim>\<open>profiles\<close>, \<^verbatim>\<open>files\<close>, \<^verbatim>\<open>nodes\<close>, \<^verbatim>\<open>tags\<close>, \<^verbatim>\<open>users\<close> in this order, each on the
  parser the one before left, and stops at the first that raises. Last it declares
  \<^verbatim>\<open>--debug\<close>, a \<^verbatim>\<open>store_true\<close> option with default \<^verbatim>\<open>False\<close> and suppressed help, which
  is appended as declared on any parser that does not have the option yet.
\<close>

theorem prepare_parser_order:
  "\<exists>(base :: 'a parser) r shell.
     (\<forall>reg. prepare_parser s PROFILE_NAMES PROFILE_DEFAULT shell_doc reg (argv0 # args) =
       io_bind (reg ''profiles'' base) (\<lambda>parser.
       io_bind (reg ''files'' parser) (\<lambda>parser.
       io_bind (reg ''nodes'' parser) (\<lambda>parser.
       io_bind (reg ''tags'' parser) (\<lambda>parser.
       io_bind (reg ''users'' parser) (\<lambda>parser.
         add_argument debug_argument parser))))))
     \<and> actions base = [] \<and> subparsers_attr base = Some r \<and> created base = 1
     \<and> map fst (name_parser_map r) = [''shell'', ''acquire'', ''launch'', ''release'', ''list'']
     \<and> map_of (name_parser_map r) ''shell'' = Some shell
     \<and> map_of (defaults shell) ''execute'' = Some (VCommand cmd_shell)
     \<and> (\<forall>g \<in> set [''acquire'', ''launch'', ''release'', ''list''].
           \<exists>child. map_of (name_parser_map r) g = Some child
             \<and> defaults child = [] \<and> actions child = [] \<and> subparsers_attr child = None)
     \<and> option_string (debug_argument :: 'a argument) = ''--debug''
     \<and> action (debug_argument :: 'a argument) = store_true
     \<and> default_value (debug_argument :: 'a argument) = VBool False
     \<and> arg_help (debug_argument :: 'a argument) = SUPPRESS
     \<and> (\<forall>p :: 'a parser. ''--debug'' \<notin> set (map option_string (actions p)) \<longrightarrow>
           add_argument debug_argument p =
             ([], Inr (set_actions (actions p @ [debug_argument]) p)))"
proof -
  from prepare_parser_steps [of s PROFILE_NAMES PROFILE_DEFAULT shell_doc argv0 args]
  obtain base :: "'a parser" and r shell where
    order: "\<forall>reg. prepare_parser s PROFILE_NAMES PROFILE_DEFAULT shell_doc reg (argv0 # args) =
       io_bind (reg ''profiles'' base) (\<lambda>parser.
       io_bind (reg ''files'' parser) (\<lambda>parser.
       io_bind (reg ''nodes'' parser) (\<lambda>parser.
       io_bind (reg ''tags'' parser) (\<lambda>parser.
       io_bind (reg ''users'' parser) (\<lambda>parser.
         add_argument debug_argument parser)))))"
    and base: "actions base = []" "subparsers_attr base = Some r" "created base = 1"
      "map fst (name_parser_map r) = [''shell'', ''acquire'', ''launch'', ''release'', ''list'']"
      "map_of (name_parser_map r) ''shell'' = Some shell"
      "map_of (defaults shell) ''execute'' = Some (VCommand cmd_shell)"
      "\<forall>g \<in> set [''acquire'', ''launch'', ''release'', ''list''].
           \<exists>child. map_of (name_parser_map r) g = Some child
             \<and> defaults child = [] \<and> actions child = [] \<and> subparsers_attr child = None"
    by (elim exE conjE) (rule that, assumption+)
  have flag: "option_string (debug_argument :: 'a argument) = ''--debug''"
    "action (debug_argument :: 'a argument) = store_true"
    "default_value (debug_argument :: 'a argument) = VBool False"
    "arg_help (debug_argument :: 'a argument) = SUPPRESS"
    by (simp_all add: debug_argument_def)
  have declared: "\<forall>p :: 'a parser. ''--debug'' \<notin> set (map option_string (actions p)) \<longrightarrow>
      add_argument debug_argument p = ([], Inr (set_actions (actions p @ [debug_argument]) p))"
    by (intro allI impI) (rule add_debug_argument)
  show ?thesis
  proof (intro exI conjI)
    show "\<forall>reg. prepare_parser s PROFILE_NAMES PROFILE_DEFAULT shell_doc reg (argv0 # args) =
       io_bind (reg ''profiles'' base) (\<lambda>parser.
       io_bind (reg ''files'' parser) (\<lambda>parser.
       io_bind (reg ''nodes'' parser) (\<lambda>parser.
       io_bind (reg ''tags'' parser) (\<lambda>parser.
       io_bind (reg ''users'' parser) (\<lambda>parser.
         add_argument debug_argument parser)))))"
      by (fact order)
  qed (fact base flag declared)+
qed

text \<open>With modules that register nothing the tree has the five children and the one option.\<close>

theorem prepare_parser_order_witness:
  "\<exists>(parser :: unit parser) r.
     prepare_parser \<lparr>stdout_isatty = True, stderr_isatty = True\<rparr> [] None
       (''Start a shell.'', []) (\<lambda>_. io_return) [''maas''] = ([], Inr parser)
     \<and> actions parser = [debug_argument]
     \<and> subparsers_attr parser = Some r
     \<and> map fst (name_parser_map r) = [''shell'', ''acquire'', ''launch'', ''release'', ''list'']"
  using prepare_parser_order
    [where ?'a = unit,
     of "\<lparr>stdout_isatty = True, stderr_isatty = True\<rparr>" "[]" None "(''Start a shell.'', [])"
        "''maas''" "[]"]
proof (elim exE conjE)
  fix base :: "unit parser" and r shell
  assume order: "\<forall>reg.
       prepare_parser \<lparr>stdout_isatty = True, stderr_isatty = True\<rparr> [] None
         (''Start a shell.'', []) reg [''maas''] =
       io_bind (reg ''profiles'' base) (\<lambda>parser.
       io_bind (reg ''files'' parser) (\<lambda>parser.
       io_bind (reg ''nodes'' parser) (\<lambda>parser.
       io_bind (reg ''tags'' parser) (\<lambda>parser.
       io_bind (reg ''users'' parser) (\<lambda>parser.
         add_argument debug_argument parser)))))"
    and base: "actions base = []" "subparsers_attr base = Some r"
      "map fst (name_parser_map r) = [''shell'', ''acquire'', ''launch'', ''release'', ''list'']"
    and declared: "\<forall>p :: unit parser. ''--debug'' \<notin> set (map option_string (actions p)) \<longrightarrow>
           add_argument debug_argument p =
             ([], Inr (set_actions (actions p @ [debug_argument]) p))"
  from order
  have eq: "prepare_parser \<lparr>stdout_isatty = True, stderr_isatty = True\<rparr> [] None
         (''Start a shell.'', []) (\<lambda>_. io_return) [''maas'']
      = add_argument debug_argument base"
    by simp
  from declared base(1)
  have "add_argument debug_argument base = ([], Inr (set_actions [debug_argument] base))"
    by simp
  with eq base show ?thesis
    by simp
qed


section \<open>Errors and recovery in the dispatch loop\<close>

lemma dispatch_ParseError:
  "dispatch s (ParseError message) run =
     ([Stderr (colorized s ''{autored}Error:{/autored} '' @ message @ newline)],
      Inl (SystemExit 2))"
  by (simp add: dispatch_def parse_args_def ArgumentParser_error_eq handler_def io_raise_def
      io_bind_Inr)

lemma dispatch_ParseRaised:
  "dispatch s (ParseRaised e :: 'd parsed) run = handler s (None :: 'd namespace option) e"
  by (simp add: dispatch_def parse_args_def io_raise_def io_bind_Inr)

lemma dispatch_no_execute:
  assumes "map_of options ''execute'' = None"
  shows "dispatch s (Parsed options) run =
     ([Stderr (colorized s ''{autored}Error:{/autored} '' @ ''No arguments given.'' @ newline)],
      Inl (SystemExit 2))"
  using assms
  by (simp add: dispatch_def parse_args_def io_return_def execute_options_def getattr_def
      ArgumentParser_error_eq handler_def io_raise_def io_bind_Inr)

lemma dispatch_raised:
  assumes "map_of options ''execute'' = Some (VCommand c)" and "run c options = (es, Inl e)"
  shows "dispatch s (Parsed options) run =
     (es @ fst (handler s (Some options) e), snd (handler s (Some options) e))"
  using assms
  by (simp add: dispatch_def parse_args_def io_return_def execute_options_def getattr_def
      io_bind_Inr)

lemma dispatch_returned:
  assumes "map_of options ''execute'' = Some (VCommand c)" and "run c options = (es, Inr x)"
  shows "dispatch s (Parsed options) run = (es, Inr ())"
  using assms
  by (simp add: dispatch_def parse_args_def io_return_def execute_options_def getattr_def)

lemma handler_inspect:
  "handler s None (Exception cls message) =
     ([PostMortem (Exception cls message)], Inl (Exception cls message))"
  by (simp add: handler_def post_mortem_def io_bind_Inr io_raise_def)

lemma handler_debug:
  assumes "map_of ns ''debug'' = Some d"
  shows "handler s (Some ns) (Exception cls message) =
     (if truthy d
      then ([PostMortem (Exception cls message)], Inl (Exception cls message))
      else ([Stderr (colorized s ''{autored}Error:{/autored} '' @ message @ newline)],
            Inl (SystemExit 2)))"
  using assms
  by (simp add: handler_def getattr_def post_mortem_def io_bind_Inr io_raise_def
      ArgumentParser_error_eq)

lemma handler_interrupt: "handler s options KeyboardInterrupt = ([], Inl (SystemExit 1))"
  by (simp add: handler_def io_raise_def)

lemma handler_SystemExit: "handler s options (SystemExit n) = ([], Inl (SystemExit n))"
  by (simp add: handler_def io_raise_def)

text \<open>
  Claim C1, evaluated. A parse error is a message given to the parser's error path. The
  run writes the prefix and the message to standard error and raises \<^verbatim>\<open>SystemExit(2)\<close>,
  which no handler of \<^verbatim>\<open>main\<close> catches, so the debugger is not started. That is all
  it does: neither usage nor help is printed, although the docstring of the method says
  the help is, and although the method it overrides prints the usage line. The last
  part is the run for an unknown flag with standard output redirected.
\<close>

theorem parse_error_path:
  "dispatch s (ParseError message) run =
     ([Stderr (colorized s ''{autored}Error:{/autored} '' @ message @ newline)],
      Inl (SystemExit 2))
   \<and> PrintUsage \<notin> set (fst (dispatch s (ParseError message) run))
   \<and> (argparse_error prog' message :: (event, unit) io) =
       ([PrintUsage, Stderr (prog' @ '': error: '' @ message @ newline)], Inl (SystemExit 2))
   \<and> dispatch \<lparr>stdout_isatty = False, stderr_isatty = False\<rparr>
       (ParseError ''unrecognized arguments: --bogus'') run =
       ([Stderr (''Error: unrecognized arguments: --bogus'' @ newline)], Inl (SystemExit 2))"
  by (simp add: dispatch_ParseError argparse_error_def argparse_exit_def io_bind_Inr newline_def
      colorized_plain_prefix)

text \<open>
  Claim C6. When the parser is built, \<^verbatim>\<open>parse_args\<close> returns, and the options have no
  \<^verbatim>\<open>execute\<close> attribute, \<^verbatim>\<open>main\<close> writes the prefix and \<^verbatim>\<open>No arguments given.\<close> to
  standard error after whatever building the parser wrote, and ends with
  \<^verbatim>\<open>SystemExit(2)\<close>: exit status 2.
\<close>

theorem no_arguments_given:
  assumes "prepare_parser s PROFILE_NAMES PROFILE_DEFAULT shell_doc reg argv = (es, Inr parser)"
    and "parse parser (drop 1 argv) = Parsed options"
    and "map_of options ''execute'' = None"
  shows "main s PROFILE_NAMES PROFILE_DEFAULT shell_doc reg parse run argv =
           (es @ [Stderr (colorized s ''{autored}Error:{/autored} ''
                          @ ''No arguments given.'' @ newline)],
            Inl (SystemExit 2))
         \<and> process_end (snd (main s PROFILE_NAMES PROFILE_DEFAULT shell_doc reg parse run argv))
             = Exited 2"
  using assms
  by (simp add: main_def io_bind_Inr dispatch_no_execute)

text \<open>The program called with no argument, standard output redirected.\<close>

theorem no_arguments_given_witness:
  "main \<lparr>stdout_isatty = False, stderr_isatty = False\<rparr> [] None (''Start a shell.'', [])
     (\<lambda>_. io_return) (\<lambda>_ _. Parsed [(''debug'', VBool False :: unit pyvalue)])
     (\<lambda>_ _. io_return ()) [''maas'']
   = ([Stderr (''Error: No arguments given.'' @ newline) :: event],
      Inl (SystemExit 2) :: exn + unit)"
proof -
  let ?s = "\<lparr>stdout_isatty = False, stderr_isatty = False\<rparr>"
  obtain parser :: "unit parser" where
    built: "prepare_parser ?s [] None (''Start a shell.'', []) (\<lambda>_. io_return) [''maas'']
              = ([], Inr parser)"
    using prepare_parser_no_modules by blast
  have parsed: "(\<lambda>_ _. Parsed [(''debug'', VBool False)]) parser (drop 1 [''maas''])
      = Parsed [(''debug'', VBool False :: unit pyvalue)]"
    by simp
  have none: "map_of [(''debug'', VBool False :: unit pyvalue)] ''execute'' = None"
    by simp
  from no_arguments_given [OF built parsed none, of "\<lambda>_ _. io_return ()"]
  show ?thesis
    by (simp add: colorized_plain_prefix)
qed

text \<open>
  Claim C7. A failure that leaves the body of the \<^verbatim>\<open>try\<close> is an interrupt or an
  instance of \<^verbatim>\<open>Exception\<close>. An interrupt becomes \<^verbatim>\<open>SystemExit(1)\<close>, exit status 1,
  with nothing further reported, whether it left \<^verbatim>\<open>parse_args\<close> or the command. Any
  other failure that leaves \<^verbatim>\<open>parse_args\<close> finds the options unset: the debugger is
  started on its traceback and it is raised again, so the process ends with its
  traceback. Any other failure that leaves the command finds the options set: when
  \<^verbatim>\<open>debug\<close> is true the debugger is started and the failure is raised again, and
  otherwise its string is written after the prefix and the run ends with
  \<^verbatim>\<open>SystemExit(2)\<close>, exit status 2. The exits of the parser itself are \<^verbatim>\<open>SystemExit\<close>,
  which is no failure: it goes on unchanged, with no debugger and no report.
\<close>

theorem recovery_policy:
  "dispatch s (ParseRaised KeyboardInterrupt) run = ([], Inl (SystemExit 1))
   \<and> dispatch s (ParseRaised (Exception cls message)) run =
       ([PostMortem (Exception cls message)], Inl (Exception cls message))
   \<and> dispatch s (ParseRaised (SystemExit n)) run = ([], Inl (SystemExit n))
   \<and> (map_of options ''execute'' = Some (VCommand c) \<and> map_of options ''debug'' = Some d
        \<and> run c options = (es, Inl e) \<longrightarrow>
        dispatch s (Parsed options) run =
          (case e of
             KeyboardInterrupt \<Rightarrow> (es, Inl (SystemExit 1))
           | Exception cls' message' \<Rightarrow>
               if truthy d then (es @ [PostMortem e], Inl e)
               else (es @ [Stderr (colorized s ''{autored}Error:{/autored} ''
                                   @ message' @ newline)],
                     Inl (SystemExit 2))
           | SystemExit n' \<Rightarrow> (es, Inl (SystemExit n'))))
   \<and> process_end (Inl (SystemExit 1) :: exn + unit) = Exited 1
   \<and> process_end (Inl (SystemExit 2) :: exn + unit) = Exited 2
   \<and> process_end (Inl (Exception cls message) :: exn + unit) = Traceback (Exception cls message)"
  by (auto simp: dispatch_ParseRaised handler_inspect handler_interrupt handler_SystemExit
      dispatch_raised handler_debug split: exn.splits)

text \<open>A command that fails with \<^verbatim>\<open>CommandError("disk full")\<close>, without and with \<^verbatim>\<open>--debug\<close>.\<close>

theorem recovery_policy_witness:
  "map_of [(''execute'', VCommand (module_command ''list-nodes'')),
           (''debug'', VBool False :: unit pyvalue)] ''execute''
     = Some (VCommand (module_command ''list-nodes''))
   \<and> map_of [(''execute'', VCommand (module_command ''list-nodes'')),
             (''debug'', VBool False :: unit pyvalue)] ''debug'' = Some (VBool False)
   \<and> dispatch \<lparr>stdout_isatty = False, stderr_isatty = False\<rparr>
       (Parsed [(''execute'', VCommand (module_command ''list-nodes'')),
                (''debug'', VBool False :: unit pyvalue)])
       (\<lambda>_ _. ([], Inl (Exception ''CommandError'' ''disk full'')))
       = ([Stderr (''Error: disk full'' @ newline)], Inl (SystemExit 2))
   \<and> dispatch \<lparr>stdout_isatty = False, stderr_isatty = False\<rparr>
       (Parsed [(''execute'', VCommand (module_command ''list-nodes'')),
                (''debug'', VBool True :: unit pyvalue)])
       (\<lambda>_ _. ([], Inl (Exception ''CommandError'' ''disk full'')))
       = ([PostMortem (Exception ''CommandError'' ''disk full'')],
          Inl (Exception ''CommandError'' ''disk full''))"
  using recovery_policy
    [of "\<lparr>stdout_isatty = False, stderr_isatty = False\<rparr>"
        "\<lambda>_ _. ([], Inl (Exception ''CommandError'' ''disk full''))" _ _ _
        "[(''execute'', VCommand (module_command ''list-nodes'')),
          (''debug'', VBool False :: unit pyvalue)]"
        "module_command ''list-nodes''" "VBool False" "[]"
        "Exception ''CommandError'' ''disk full''"]
    recovery_policy
    [of "\<lparr>stdout_isatty = False, stderr_isatty = False\<rparr>"
        "\<lambda>_ _. ([], Inl (Exception ''CommandError'' ''disk full''))" _ _ _
        "[(''execute'', VCommand (module_command ''list-nodes'')),
          (''debug'', VBool True :: unit pyvalue)]"
        "module_command ''list-nodes''" "VBool True" "[]"
        "Exception ''CommandError'' ''disk full''"]
  by (simp add: colorized_plain_prefix)


section \<open>Profile-bound commands\<close>

text \<open>
  Claim C9. When the options carry a profile name and the session and origin
  constructors return, the call of a profile-bound command makes exactly three calls:
  one session from that name, one origin from that session, and one call of the
  narrower \<^verbatim>\<open>execute\<close> with that origin and the options, whose result is the result.
  The combined profile-bound and table-emitting command does the same and passes the
  value of \<^verbatim>\<open>output_format\<close> as the target.
\<close>

theorem origin_command_calls:
  assumes "map_of options ''profile_name'' = Some profile_name"
    and "fromProfileName profile_name = Inr session"
    and "Origin session = Inr origin"
  shows "OriginCommand_call fromProfileName Origin execute options =
           ([call_fromProfileName profile_name, call_Origin session,
             call_execute origin options None],
            execute origin options None)
         \<and> (\<forall>target. map_of options ''output_format'' = Some target \<longrightarrow>
              OriginTableCommand_call fromProfileName Origin execute options =
                ([call_fromProfileName profile_name, call_Origin session,
                  call_execute origin options (Some target)],
                 execute origin options (Some target)))"
  using assms
  by (simp add: OriginCommand_call_def OriginTableCommand_call_def getattr_def io_bind_Inr)

theorem origin_command_calls_witness:
  "map_of [(''profile_name'', VStr ''prod''), (''output_format'', VTarget pretty :: unit pyvalue)]
     ''profile_name'' = Some (VStr ''prod'')
   \<and> OriginCommand_call (\<lambda>n. Inr (7 :: nat)) (\<lambda>session. Inr (Suc session))
       (\<lambda>origin ns target. Inr ())
       [(''profile_name'', VStr ''prod''), (''output_format'', VTarget pretty :: unit pyvalue)]
     = ([call_fromProfileName (VStr ''prod''), call_Origin 7,
         call_execute (Suc 7)
           [(''profile_name'', VStr ''prod''), (''output_format'', VTarget pretty)] None],
        Inr ())
   \<and> OriginTableCommand_call (\<lambda>n. Inr (7 :: nat)) (\<lambda>session. Inr (Suc session))
       (\<lambda>origin ns target. Inr ())
       [(''profile_name'', VStr ''prod''), (''output_format'', VTarget pretty :: unit pyvalue)]
     = ([call_fromProfileName (VStr ''prod''), call_Origin 7,
         call_execute (Suc 7)
           [(''profile_name'', VStr ''prod''), (''output_format'', VTarget pretty)]
           (Some (VTarget pretty))],
        Inr ())"
  using origin_command_calls
    [of "[(''profile_name'', VStr ''prod''), (''output_format'', VTarget pretty :: unit pyvalue)]"
        "VStr ''prod''" "\<lambda>n. Inr (7 :: nat)" 7 "\<lambda>session. Inr (Suc session)" "Suc 7"
        "\<lambda>origin ns target. Inr ()"]
  by simp

end
